theory Spec2Isabelle
  imports Complex_Main
begin

section \<open>The trading engine of binance\_th\_bot\<close>

text \<open>
  The development embeds \<^verbatim>\<open>src/bot_engine.py\<close> (class \<^verbatim>\<open>BotEngine\<close>) and the
  quantizer of \<^verbatim>\<open>src/binance_api.py\<close> (\<^verbatim>\<open>BinanceAsyncClient.format_number\<close>).

  Conventions of the embedding:
  \<^item> A Python \<^verbatim>\<open>float\<close> is an exact \<^typ>\<open>real\<close>: rounding of binary floating point,
    infinities and NaN are outside the model. Division is Python's division of \<^verbatim>\<open>float\<close>
    (the type the signatures declare): a zero divisor raises \<^verbatim>\<open>ZeroDivisionError\<close>. The
    loop of \<^verbatim>\<open>run\<close> takes the price from a data frame, as a \<^verbatim>\<open>numpy.float64\<close>, for which a
    division by zero gives an infinity or NaN with a warning: where a theorem speaks of
    \<^verbatim>\<open>ZeroDivisionError\<close>, the loop computes with such a value instead.
  \<^item> The instance attributes of \<^verbatim>\<open>BotEngine\<close>, the \<^verbatim>\<open>trades\<close> table, the events passed to
    \<^verbatim>\<open>broadcast\<close> and the orders sent to the exchange are the fields of one state record.
  \<^item> The exchange is a parameter: the answer of \<^verbatim>\<open>client.place_order\<close> to a request, which
    may depend on how many orders were sent before. It either raises or returns the
    order's JSON object.
  \<^item> The \<^verbatim>\<open>trades\<close> table is reliable: reading and committing do not raise. The columns
    \<^verbatim>\<open>id\<close> and \<^verbatim>\<open>timestamp\<close>, which the database fills in, are left out; the rows are kept
    in insertion order.
  \<^item> A function that raises returns \<open>Raise e s\<close>, where \<open>s\<close> is the state at the raise.
\<close>

subsection \<open>Data\<close>

datatype exn =
    ZeroDivisionError
  | KeyError string
  | ValueError
  | GatewayError string

text \<open>A row of the table \<^verbatim>\<open>trades\<close> (\<^verbatim>\<open>init_db\<close> in \<^verbatim>\<open>src/main.py\<close>).\<close>

record trade =
  t_symbol :: string
  t_order_id :: string
  t_side :: string
  t_price :: real
  t_amount :: real
  t_strategy :: string
  t_status :: string

text \<open>The keyword arguments of \<^verbatim>\<open>client.place_order\<close> as \<^verbatim>\<open>execute_trade\<close> passes them.\<close>

record order_req =
  o_symbol :: string
  o_amount :: real
  o_side :: string
  o_order_type :: string

text \<open>
  The field \<^verbatim>\<open>executedQty\<close> of the exchange's answer, as \<^verbatim>\<open>float(order_res.get('executedQty', qty))\<close>
  sees it: absent, a text that \<^verbatim>\<open>float\<close> reads, or one on which \<^verbatim>\<open>float\<close> raises \<^verbatim>\<open>ValueError\<close>.
\<close>

datatype qty_field = Missing | Number real | Unparsable

record order_res =
  orderId :: "string option"
  executedQty :: qty_field

type_synonym gateway = "nat \<Rightarrow> order_req \<Rightarrow> exn + order_res"

text \<open>The messages of \<^verbatim>\<open>BotEngine.log\<close>, one constructor for each f-string of the source.\<close>

datatype message =
    Started
  | MarketRegime string string
  | SmartDCA string real
  | NewTrailingPeak string real
  | TrailingTriggered string
  | OrderRejected string string real
  | TradeDone string string string real real
  | OrderError string exn
  | ProcessingError string exn

record event =
  e_type :: string
  e_msg :: message

record state =
  trade_amount_usdt :: real
  dca_drop_pct :: real
  ttp_activation_pct :: real
  ttp_trail_pct :: real
  peak_prices :: "string \<rightharpoonup> real"
  ledger :: "trade list"
  events :: "event list"
  orders :: "order_req list"

datatype outcome = Return state | Raise exn state

fun state_of :: "outcome \<Rightarrow> state" where
  "state_of (Return s) = s"
| "state_of (Raise e s) = s"

text \<open>\<^verbatim>\<open>BotEngine.__init__\<close>, on a table that holds the rows \<open>rows\<close>.\<close>

definition init :: "trade list \<Rightarrow> state" where
  "init rows =
     \<lparr> trade_amount_usdt = 15, dca_drop_pct = 5 / 100, ttp_activation_pct = 3 / 100,
       ttp_trail_pct = 1 / 100, peak_prices = Map.empty, ledger = rows, events = [],
       orders = [] \<rparr>"

subsection \<open>Logging and arithmetic\<close>

text \<open>
  \<^verbatim>\<open>BotEngine.log\<close>: the event goes to \<^verbatim>\<open>broadcast\<close>, which catches the failure of every
  single send (\<^verbatim>\<open>broadcast_log\<close> in \<^verbatim>\<open>src/main.py\<close>), so logging does not raise.
\<close>

definition log_event :: "message \<Rightarrow> string \<Rightarrow> state \<Rightarrow> state" where
  "log_event m level s = s\<lparr>events := events s @ [\<lparr>e_type = level, e_msg = m\<rparr>]\<rparr>"

definition py_div :: "real \<Rightarrow> real \<Rightarrow> exn + real" where
  "py_div a b = (if b = 0 then Inl ZeroDivisionError else Inr (a / b))"

subsection \<open>Execution and database\<close>

text \<open>\<^verbatim>\<open>SELECT * FROM trades WHERE symbol = ? AND status = 'OPEN'\<close>\<close>

definition open_trades :: "string \<Rightarrow> trade list \<Rightarrow> trade list" where
  "open_trades symbol rows = filter (\<lambda>t. t_symbol t = symbol \<and> t_status t = ''OPEN'') rows"

text \<open>\<^verbatim>\<open>UPDATE trades SET status = 'CLOSED' WHERE symbol = ? AND status = 'OPEN'\<close>\<close>

definition close_open :: "string \<Rightarrow> trade list \<Rightarrow> trade list" where
  "close_open symbol rows =
     map (\<lambda>t. if t_symbol t = symbol \<and> t_status t = ''OPEN'' then t\<lparr>t_status := ''CLOSED''\<rparr> else t) rows"

definition check_open_position :: "string \<Rightarrow> state \<Rightarrow> bool" where
  "check_open_position symbol s = (length (open_trades symbol (ledger s)) > 0)"

text \<open>
  Lines 179 to 182 of \<^verbatim>\<open>execute_trade\<close>: the quantity of the order. The division is outside
  the \<^verbatim>\<open>try\<close> block.
\<close>

definition quantity :: "state \<Rightarrow> string \<Rightarrow> real \<Rightarrow> real option \<Rightarrow> exn + real" where
  "quantity s side price close_all_amount =
     (case close_all_amount of
        Some a \<Rightarrow> if side = ''SELL'' then Inr a else py_div (trade_amount_usdt s) price
      | None \<Rightarrow> py_div (trade_amount_usdt s) price)"

text \<open>
  Lines 195 to 211: what the \<^verbatim>\<open>try\<close> block does with the answer of the exchange. \<^verbatim>\<open>str(order_res.get('orderId', 'TEST_ORDER_ID'))\<close>
  is the text of the identifier, or the default.
\<close>

definition record_fill ::
  "string \<Rightarrow> string \<Rightarrow> real \<Rightarrow> string \<Rightarrow> string \<Rightarrow> real \<Rightarrow> trade list \<Rightarrow> trade list" where
  "record_fill symbol side price strategy_name order_id executed_qty rows =
     (if side = ''BUY'' then
        rows @ [\<lparr> t_symbol = symbol, t_order_id = order_id, t_side = side, t_price = price,
                  t_amount = executed_qty, t_strategy = strategy_name, t_status = ''OPEN'' \<rparr>]
      else if side = ''SELL'' then close_open symbol rows
      else rows)"

definition execute_trade ::
  "gateway \<Rightarrow> string \<Rightarrow> string \<Rightarrow> real \<Rightarrow> string \<Rightarrow> real option \<Rightarrow> state \<Rightarrow> outcome" where
  "execute_trade client symbol side price strategy_name close_all_amount s =
     (case quantity s side price close_all_amount of
        Inl e \<Rightarrow> Raise e s
      | Inr qty \<Rightarrow>
          let notional_value = qty * price in
          if notional_value < 10 then
            Return (log_event (OrderRejected side symbol notional_value) ''warning'' s)
          else
            let req = \<lparr> o_symbol = symbol, o_amount = qty, o_side = side,
                        o_order_type = ''MARKET'' \<rparr>;
                s1 = s\<lparr>orders := orders s @ [req]\<rparr>
            in case client (length (orders s)) req of
                 Inl e \<Rightarrow> Return (log_event (OrderError symbol e) ''error'' s1)
               | Inr order_res \<Rightarrow>
                   let order_id = (case orderId order_res of
                                     Some i \<Rightarrow> i | None \<Rightarrow> ''TEST_ORDER_ID'')
                   in case executedQty order_res of
                        Unparsable \<Rightarrow> Return (log_event (OrderError symbol ValueError) ''error'' s1)
                      | Missing \<Rightarrow>
                          Return (log_event (TradeDone side symbol strategy_name price qty) ''success''
                            (s1\<lparr>ledger := record_fill symbol side price strategy_name
                                             order_id qty (ledger s1)\<rparr>))
                      | Number executed_qty \<Rightarrow>
                          Return (log_event (TradeDone side symbol strategy_name price executed_qty)
                            ''success''
                            (s1\<lparr>ledger := record_fill symbol side price strategy_name
                                             order_id executed_qty (ledger s1)\<rparr>)))"

text \<open>\<^verbatim>\<open>set_trade_amount\<close>: the flag of the returned pair and the new state.\<close>

definition set_trade_amount :: "real \<Rightarrow> state \<Rightarrow> bool \<times> state" where
  "set_trade_amount new_amount s =
     (if new_amount < 10 then (False, s) else (True, s\<lparr>trade_amount_usdt := new_amount\<rparr>))"

subsection \<open>Money management\<close>

text \<open>Lines 139 to 143 of \<^verbatim>\<open>manage_open_positions\<close>, on the rows the query returned.\<close>

definition total_amount :: "trade list \<Rightarrow> real" where
  "total_amount trades = sum_list (map t_amount trades)"

definition total_cost :: "trade list \<Rightarrow> real" where
  "total_cost trades = sum_list (map (\<lambda>t. t_price t * t_amount t) trades)"

definition avg_price :: "trade list \<Rightarrow> real" where
  "avg_price trades =
     (if total_amount trades > 0 then total_cost trades / total_amount trades else 0)"

definition profit_pct :: "real \<Rightarrow> trade list \<Rightarrow> exn + real" where
  "profit_pct current_price trades =
     py_div (current_price - avg_price trades) (avg_price trades)"

text \<open>Lines 154 to 157: the update of the stored peak in the trailing branch.\<close>

definition update_peak :: "string \<Rightarrow> real \<Rightarrow> trade list \<Rightarrow> state \<Rightarrow> state" where
  "update_peak symbol current_price trades s =
     (let current_peak = (case peak_prices s symbol of
                            Some p \<Rightarrow> p | None \<Rightarrow> avg_price trades)
      in if current_price > current_peak then
           log_event (NewTrailingPeak symbol current_price) ''info''
             (s\<lparr>peak_prices := (peak_prices s)(symbol \<mapsto> current_price)\<rparr>)
         else s)"

definition manage_open_positions :: "gateway \<Rightarrow> string \<Rightarrow> real \<Rightarrow> state \<Rightarrow> outcome" where
  "manage_open_positions client symbol current_price s =
     (let trades = open_trades symbol (ledger s) in
      if trades = [] then Return (s\<lparr>peak_prices := (peak_prices s)(symbol := None)\<rparr>)
      else
        case profit_pct current_price trades of
          Inl e \<Rightarrow> Raise e s
        | Inr pct \<Rightarrow>
            if pct \<le> - dca_drop_pct s then
              execute_trade client symbol ''BUY'' current_price ''DCA'' None
                (log_event (SmartDCA symbol pct) ''info'' s)
            else if pct \<ge> ttp_activation_pct s then
              let s1 = update_peak symbol current_price trades s
              in case peak_prices s1 symbol of
                   None \<Rightarrow> Raise (KeyError symbol) s1
                 | Some peak \<Rightarrow>
                     (case py_div (peak - current_price) peak of
                        Inl e \<Rightarrow> Raise e s1
                      | Inr drawdown_from_peak \<Rightarrow>
                          if drawdown_from_peak \<ge> ttp_trail_pct s then
                            execute_trade client symbol ''SELL'' current_price ''TTP''
                              (Some (total_amount trades))
                              (log_event (TrailingTriggered symbol) ''info'' s1)
                          else Return s1)
            else Return s)"

subsection \<open>Strategies and the trading loop\<close>

text \<open>
  The indicator library is outside the program: what one iteration of the loop reads from
  the data frame (the last close and the last indicator values, the MACD lines of the bar
  before) is given.
\<close>

record snapshot =
  close :: real
  ADX_14 :: real
  EMA_50 :: real
  RSI_14 :: real
  RSI_7 :: real
  MACD_12_26_9 :: real
  MACDs_12_26_9 :: real
  MACD_12_26_9_prev :: real
  MACDs_12_26_9_prev :: real

definition strategy_1_trend_reversal :: "snapshot \<Rightarrow> string" where
  "strategy_1_trend_reversal df =
     (if RSI_14 df < 30 then ''BUY'' else if RSI_14 df > 70 then ''SELL'' else ''HOLD'')"

definition strategy_2_rsi_scalping :: "snapshot \<Rightarrow> string" where
  "strategy_2_rsi_scalping df =
     (if RSI_7 df < 25 then ''BUY'' else if RSI_7 df > 75 then ''SELL'' else ''HOLD'')"

definition strategy_3_macd_cross :: "snapshot \<Rightarrow> string" where
  "strategy_3_macd_cross df =
     (if MACD_12_26_9 df > MACDs_12_26_9 df \<and> MACD_12_26_9_prev df \<le> MACDs_12_26_9_prev df
      then ''BUY'' else ''HOLD'')"

datatype strategy =
  Strategy_1_trend_reversal | Strategy_2_rsi_scalping | Strategy_3_macd_cross

fun strategy_fn_name :: "strategy \<Rightarrow> string" where
  "strategy_fn_name Strategy_1_trend_reversal = ''strategy_1_trend_reversal''"
| "strategy_fn_name Strategy_2_rsi_scalping = ''strategy_2_rsi_scalping''"
| "strategy_fn_name Strategy_3_macd_cross = ''strategy_3_macd_cross''"

fun run_strategy :: "strategy \<Rightarrow> snapshot \<Rightarrow> string" where
  "run_strategy Strategy_1_trend_reversal df = strategy_1_trend_reversal df"
| "run_strategy Strategy_2_rsi_scalping df = strategy_2_rsi_scalping df"
| "run_strategy Strategy_3_macd_cross df = strategy_3_macd_cross df"

text \<open>\<^verbatim>\<open>strategy_4_auto_ai\<close> without its log line: the regime and the selected strategy.\<close>

definition strategy_4_auto_ai :: "snapshot \<Rightarrow> string \<times> strategy" where
  "strategy_4_auto_ai df =
     (if ADX_14 df > 25 then
        (if close df > EMA_50 df then (''BULLISH'', Strategy_3_macd_cross)
         else (''BEARISH'', Strategy_1_trend_reversal))
      else (''SIDEWAYS'', Strategy_2_rsi_scalping))"

text \<open>
  The body of the \<^verbatim>\<open>for symbol in self.symbols\<close> loop of \<^verbatim>\<open>run\<close> (lines 42 to 62). The
  first argument is what \<^verbatim>\<open>get_candles\<close> and the indicator library deliver: an exception or
  the snapshot. Every exception is caught and logged, so the body returns a state.
\<close>

definition process_symbol :: "gateway \<Rightarrow> exn + snapshot \<Rightarrow> string \<Rightarrow> state \<Rightarrow> state" where
  "process_symbol client candles symbol s =
     (case candles of
        Inl e \<Rightarrow> log_event (ProcessingError symbol e) ''error'' s
      | Inr df \<Rightarrow>
          let current_price = close df;
              (regime, active_strategy) = strategy_4_auto_ai df;
              s0 = log_event (MarketRegime regime (strategy_fn_name active_strategy)) ''info'' s
          in case manage_open_positions client symbol current_price s0 of
               Raise e s1 \<Rightarrow> log_event (ProcessingError symbol e) ''error'' s1
             | Return s1 \<Rightarrow>
                 if \<not> check_open_position symbol s1 then
                   (if run_strategy active_strategy df = ''BUY'' then
                      (case execute_trade client symbol ''BUY'' current_price
                              ''Strategy_Auto'' None s1 of
                         Raise e s2 \<Rightarrow> log_event (ProcessingError symbol e) ''error'' s2
                       | Return s2 \<Rightarrow> s2)
                    else s1)
                 else s1)"

section \<open>Minimum notional and gateway failures\<close>

text \<open>
  C1. When the quantity of an order is computed and quantity times price is strictly below
  10, \<^verbatim>\<open>execute_trade\<close> returns after one warning event: no order is sent to the exchange
  and the table of trades is unchanged. The quantity is the close-all amount when one is
  given on a SELL, and the trade amount divided by the price otherwise.
\<close>

theorem min_notional_rejects:
  assumes "quantity s side price close_all_amount = Inr qty"
    and "qty * price < 10"
  shows "execute_trade client symbol side price strategy_name close_all_amount s =
           Return (log_event (OrderRejected side symbol (qty * price)) ''warning'' s)
         \<and> orders (state_of (execute_trade client symbol side price strategy_name
                                close_all_amount s)) = orders s
         \<and> ledger (state_of (execute_trade client symbol side price strategy_name
                                close_all_amount s)) = ledger s
         \<and> qty = (case close_all_amount of
                    Some a \<Rightarrow> if side = ''SELL'' then a else trade_amount_usdt s / price
                  | None \<Rightarrow> trade_amount_usdt s / price)"
proof -
  have run: "execute_trade client symbol side price strategy_name close_all_amount s =
           Return (log_event (OrderRejected side symbol (qty * price)) ''warning'' s)"
    using assms by (simp add: execute_trade_def)
  have q: "qty = (case close_all_amount of
                    Some a \<Rightarrow> if side = ''SELL'' then a else trade_amount_usdt s / price
                  | None \<Rightarrow> trade_amount_usdt s / price)"
    using assms(1)
    by (auto simp: quantity_def py_div_def split: option.splits if_splits)
  have o: "orders (state_of (execute_trade client symbol side price strategy_name
                                close_all_amount s)) = orders s"
    by (simp add: run log_event_def)
  have l: "ledger (state_of (execute_trade client symbol side price strategy_name
                                close_all_amount s)) = ledger s"
    by (simp add: run log_event_def)
  from run o l q show ?thesis by blast
qed

theorem min_notional_rejects_witness:
  "quantity (init []) ''SELL'' 100 (Some (1 / 20)) = Inr (1 / 20)
   \<and> (1 / 20) * 100 < (10::real)
   \<and> execute_trade (\<lambda>n r. Inl (GatewayError ''down'')) ''BTCUSDT'' ''SELL'' 100 ''TTP''
        (Some (1 / 20)) (init []) =
      Return (log_event (OrderRejected ''SELL'' ''BTCUSDT'' 5) ''warning'' (init []))
   \<and> orders (state_of (execute_trade (\<lambda>n r. Inl (GatewayError ''down'')) ''BTCUSDT'' ''SELL''
        100 ''TTP'' (Some (1 / 20)) (init []))) = []
   \<and> ledger (state_of (execute_trade (\<lambda>n r. Inl (GatewayError ''down'')) ''BTCUSDT'' ''SELL''
        100 ''TTP'' (Some (1 / 20)) (init []))) = []"
proof -
  have q: "quantity (init []) ''SELL'' 100 (Some (1 / 20)) = Inr (1 / 20)"
    by (simp add: quantity_def)
  have n: "(1 / 20) * 100 < (10::real)"
    by simp
  show ?thesis
    using min_notional_rejects [OF q n, where client = "\<lambda>n r. Inl (GatewayError ''down'')"
        and symbol = "''BTCUSDT''" and strategy_name = "''TTP''"] q
    by (simp add: init_def log_event_def)
qed

text \<open>
  C5. When the order is sent (the quantity is computed and the notional is at least 10) and
  the call of the exchange raises, \<^verbatim>\<open>execute_trade\<close> catches the exception, logs one error
  event that carries it, and returns normally: the table of trades is the one before the
  call (nothing is inserted, no status is changed), whatever the side.
\<close>

theorem gateway_failure_is_caught:
  assumes "quantity s side price close_all_amount = Inr qty"
    and "\<not> qty * price < 10"
    and "client (length (orders s))
           \<lparr> o_symbol = symbol, o_amount = qty, o_side = side, o_order_type = ''MARKET'' \<rparr>
         = Inl e"
  shows "execute_trade client symbol side price strategy_name close_all_amount s =
           Return (log_event (OrderError symbol e) ''error''
             (s\<lparr>orders := orders s @ [\<lparr> o_symbol = symbol, o_amount = qty, o_side = side,
                                        o_order_type = ''MARKET'' \<rparr>]\<rparr>))
         \<and> ledger (state_of (execute_trade client symbol side price strategy_name
                                close_all_amount s)) = ledger s
         \<and> events (state_of (execute_trade client symbol side price strategy_name
                                close_all_amount s)) =
             events s @ [\<lparr> e_type = ''error'', e_msg = OrderError symbol e \<rparr>]"
proof -
  have run: "execute_trade client symbol side price strategy_name close_all_amount s =
           Return (log_event (OrderError symbol e) ''error''
             (s\<lparr>orders := orders s @ [\<lparr> o_symbol = symbol, o_amount = qty, o_side = side,
                                        o_order_type = ''MARKET'' \<rparr>]\<rparr>))"
    using assms by (simp add: execute_trade_def Let_def)
  show ?thesis
    by (simp add: run log_event_def)
qed

theorem gateway_failure_is_caught_witness:
  "quantity (init []) ''BUY'' 100 None = Inr (3 / 20)
   \<and> \<not> (3 / 20) * 100 < (10::real)
   \<and> execute_trade (\<lambda>n r. Inl (GatewayError ''timeout'')) ''BTCUSDT'' ''BUY'' 100
        ''Strategy_Auto'' None (init []) =
      Return (log_event (OrderError ''BTCUSDT'' (GatewayError ''timeout'')) ''error''
        ((init [])\<lparr>orders := [\<lparr> o_symbol = ''BTCUSDT'', o_amount = 3 / 20, o_side = ''BUY'',
                                  o_order_type = ''MARKET'' \<rparr>]\<rparr>))
   \<and> ledger (state_of (execute_trade (\<lambda>n r. Inl (GatewayError ''timeout'')) ''BTCUSDT''
        ''BUY'' 100 ''Strategy_Auto'' None (init []))) = []"
proof -
  have q: "quantity (init []) ''BUY'' 100 None = Inr (3 / 20)"
    by (simp add: quantity_def py_div_def init_def)
  have n: "\<not> (3 / 20) * 100 < (10::real)"
    by simp
  have g: "(\<lambda>n r. Inl (GatewayError ''timeout'')) (length (orders (init [])))
             \<lparr> o_symbol = ''BTCUSDT'', o_amount = 3 / 20, o_side = ''BUY'',
               o_order_type = ''MARKET'' \<rparr>
           = (Inl (GatewayError ''timeout'') :: exn + order_res)"
    by simp
  show ?thesis
    using gateway_failure_is_caught [OF q n g, where strategy_name = "''Strategy_Auto''"] q
    by (simp add: init_def log_event_def)
qed

section \<open>Position management\<close>

subsection \<open>Sample data\<close>

text \<open>
  An OPEN row as a filled BUY inserts it, an exchange that fills every order completely
  and one that rejects every order.
\<close>

definition open_lot :: "string \<Rightarrow> real \<Rightarrow> real \<Rightarrow> trade" where
  "open_lot symbol price amount =
     \<lparr> t_symbol = symbol, t_order_id = ''TEST_ORDER_ID'', t_side = ''BUY'', t_price = price,
       t_amount = amount, t_strategy = ''Strategy_Auto'', t_status = ''OPEN'' \<rparr>"

definition fills :: gateway where
  "fills n req = Inr \<lparr> orderId = None, executedQty = Number (o_amount req) \<rparr>"

definition rejects :: gateway where
  "rejects n req = Inl (GatewayError ''rejected'')"

lemmas engine_defs =
  manage_open_positions_def open_trades_def profit_pct_def avg_price_def total_amount_def
  total_cost_def py_div_def update_peak_def log_event_def init_def open_lot_def
  execute_trade_def quantity_def record_fill_def close_open_def fills_def rejects_def Let_def

subsection \<open>Facts about the engine's functions\<close>

lemma execute_trade_peak_prices:
  "peak_prices (state_of (execute_trade client symbol side price strategy_name ca s)) =
     peak_prices s"
  by (simp add: execute_trade_def log_event_def Let_def split: sum.splits qty_field.splits)

lemma execute_trade_orders:
  "orders (state_of (execute_trade client symbol side price strategy_name ca s)) = orders s
   \<or> (\<exists>qty. quantity s side price ca = Inr qty \<and>
        orders (state_of (execute_trade client symbol side price strategy_name ca s)) =
          orders s @ [\<lparr> o_symbol = symbol, o_amount = qty, o_side = side,
                        o_order_type = ''MARKET'' \<rparr>])"
  by (simp add: execute_trade_def log_event_def Let_def split: sum.splits qty_field.splits)

lemma execute_trade_raises:
  "execute_trade client symbol side price strategy_name ca s = Raise e s' \<Longrightarrow>
     e = ZeroDivisionError \<and> s' = s"
  by (auto simp: execute_trade_def quantity_def py_div_def Let_def
      split: sum.splits qty_field.splits option.splits if_splits)

lemma activation_above_avg:
  assumes "0 < avg_price trades" and "profit_pct current_price trades = Inr pct" and "0 < pct"
  shows "avg_price trades < current_price"
proof -
  from assms(1,2) have "pct = (current_price - avg_price trades) / avg_price trades"
    by (auto simp: profit_pct_def py_div_def split: if_splits)
  with assms(1,3) have "0 < current_price - avg_price trades"
    by (simp add: zero_less_divide_iff)
  then show ?thesis by simp
qed

lemma update_peak_fields:
  "ledger (update_peak symbol current_price trades s) = ledger s"
  "orders (update_peak symbol current_price trades s) = orders s"
  "ttp_trail_pct (update_peak symbol current_price trades s) = ttp_trail_pct s"
  by (simp_all add: update_peak_def log_event_def Let_def)

lemma update_peak_max:
  assumes "peak_prices s symbol = None \<longrightarrow> avg_price trades < current_price"
  shows "peak_prices (update_peak symbol current_price trades s) =
           (peak_prices s)(symbol \<mapsto>
              max (case peak_prices s symbol of Some p \<Rightarrow> p | None \<Rightarrow> avg_price trades)
                current_price)"
  using assms
  by (auto simp: update_peak_def log_event_def Let_def max_def fun_upd_idem_iff
      split: option.splits)

subsection \<open>Averaging down\<close>

text \<open>
  C3. When the symbol has OPEN rows, the profit percentage is computed and it is at most
  minus the DCA threshold, \<^verbatim>\<open>manage_open_positions\<close> is one log line followed by one call
  of \<^verbatim>\<open>execute_trade\<close> for a BUY named DCA, and nothing else: the stored peaks are not
  touched (the trailing stop is not evaluated), and at most one order, that BUY, is sent.
\<close>

theorem dca_preempts_trailing:
  assumes "open_trades symbol (ledger s) \<noteq> []"
    and "profit_pct current_price (open_trades symbol (ledger s)) = Inr pct"
    and "pct \<le> - dca_drop_pct s"
  shows "manage_open_positions client symbol current_price s =
           execute_trade client symbol ''BUY'' current_price ''DCA'' None
             (log_event (SmartDCA symbol pct) ''info'' s)
         \<and> peak_prices (state_of (manage_open_positions client symbol current_price s)) =
             peak_prices s
         \<and> (orders (state_of (manage_open_positions client symbol current_price s)) = orders s
            \<or> orders (state_of (manage_open_positions client symbol current_price s)) =
                orders s @ [\<lparr> o_symbol = symbol, o_amount = trade_amount_usdt s / current_price,
                              o_side = ''BUY'', o_order_type = ''MARKET'' \<rparr>])"
proof -
  let ?s0 = "log_event (SmartDCA symbol pct) ''info'' s"
  have run: "manage_open_positions client symbol current_price s =
           execute_trade client symbol ''BUY'' current_price ''DCA'' None ?s0"
    using assms by (simp add: manage_open_positions_def Let_def)
  have pk: "peak_prices (state_of (manage_open_positions client symbol current_price s)) =
             peak_prices s"
    by (simp add: run execute_trade_peak_prices) (simp add: log_event_def)
  have "orders (state_of (execute_trade client symbol ''BUY'' current_price ''DCA'' None ?s0))
          = orders ?s0
        \<or> (\<exists>qty. quantity ?s0 ''BUY'' current_price None = Inr qty \<and>
             orders (state_of (execute_trade client symbol ''BUY'' current_price ''DCA'' None ?s0))
               = orders ?s0 @ [\<lparr> o_symbol = symbol, o_amount = qty, o_side = ''BUY'',
                        o_order_type = ''MARKET'' \<rparr>])"
    by (rule execute_trade_orders)
  then have od: "orders (state_of (manage_open_positions client symbol current_price s)) = orders s
            \<or> orders (state_of (manage_open_positions client symbol current_price s)) =
                orders s @ [\<lparr> o_symbol = symbol, o_amount = trade_amount_usdt s / current_price,
                              o_side = ''BUY'', o_order_type = ''MARKET'' \<rparr>]"
    unfolding run
    by (auto simp: quantity_def py_div_def log_event_def split: if_splits)
  from run pk od show ?thesis by blast
qed

theorem dca_preempts_trailing_witness:
  "open_trades ''BTCUSDT'' (ledger (init [open_lot ''BTCUSDT'' 100 1])) \<noteq> []
   \<and> profit_pct 94 (open_trades ''BTCUSDT'' (ledger (init [open_lot ''BTCUSDT'' 100 1])))
       = Inr (- (3 / 50))
   \<and> - (3 / 50) \<le> - dca_drop_pct (init [open_lot ''BTCUSDT'' 100 1])
   \<and> manage_open_positions fills ''BTCUSDT'' 94 (init [open_lot ''BTCUSDT'' 100 1]) =
       execute_trade fills ''BTCUSDT'' ''BUY'' 94 ''DCA'' None
         (log_event (SmartDCA ''BTCUSDT'' (- (3 / 50))) ''info''
           (init [open_lot ''BTCUSDT'' 100 1]))
   \<and> peak_prices (state_of (manage_open_positions fills ''BTCUSDT'' 94
         (init [open_lot ''BTCUSDT'' 100 1]))) = Map.empty
   \<and> orders (state_of (manage_open_positions fills ''BTCUSDT'' 94
         (init [open_lot ''BTCUSDT'' 100 1]))) =
       [\<lparr> o_symbol = ''BTCUSDT'', o_amount = 15 / 94, o_side = ''BUY'',
          o_order_type = ''MARKET'' \<rparr>]"
proof -
  let ?s = "init [open_lot ''BTCUSDT'' 100 1]"
  have a: "open_trades ''BTCUSDT'' (ledger ?s) \<noteq> []"
    by (simp add: engine_defs)
  have b: "profit_pct 94 (open_trades ''BTCUSDT'' (ledger ?s)) = Inr (- (3 / 50))"
    by (simp add: engine_defs)
  have c: "- (3 / 50) \<le> - dca_drop_pct ?s"
    by (simp add: init_def)
  have d: "orders (state_of (execute_trade fills ''BTCUSDT'' ''BUY'' 94 ''DCA'' None
             (log_event (SmartDCA ''BTCUSDT'' (- (3 / 50))) ''info'' ?s))) =
       [\<lparr> o_symbol = ''BTCUSDT'', o_amount = 15 / 94, o_side = ''BUY'',
          o_order_type = ''MARKET'' \<rparr>]"
    by (simp add: engine_defs)
  have e: "peak_prices ?s = Map.empty"
    by (simp add: init_def)
  note t = dca_preempts_trailing [OF a b c, where client = fills]
  from t have run: "manage_open_positions fills ''BTCUSDT'' 94 ?s =
       execute_trade fills ''BTCUSDT'' ''BUY'' 94 ''DCA'' None
         (log_event (SmartDCA ''BTCUSDT'' (- (3 / 50))) ''info'' ?s)"
    by blast
  from t have "peak_prices (state_of (manage_open_positions fills ''BTCUSDT'' 94 ?s)) =
      peak_prices ?s"
    by blast
  then have pk: "peak_prices (state_of (manage_open_positions fills ''BTCUSDT'' 94 ?s)) =
      Map.empty"
    by (simp only: e)
  have od: "orders (state_of (manage_open_positions fills ''BTCUSDT'' 94 ?s)) =
       [\<lparr> o_symbol = ''BTCUSDT'', o_amount = 15 / 94, o_side = ''BUY'',
          o_order_type = ''MARKET'' \<rparr>]"
    by (simp only: run d)
  show ?thesis
    by (intro conjI a b c run pk od)
qed

subsection \<open>Trailing take profit\<close>

text \<open>
  C2. When the symbol has OPEN rows with a positive average price, the thresholds are
  sane (DCA drop not negative, activation positive; the defaults are 0.05 and 0.03) and
  the profit percentage is at least the activation threshold, the trailing stop is active:
  the stored peak becomes the maximum of the stored peak (or the average price when none
  is stored) and the current price, nothing else changes but the log, and the full-position
  SELL (a call of \<^verbatim>\<open>execute_trade\<close> for the total open amount) happens exactly when
  the drawdown from that peak is at least the trailing threshold.
\<close>

theorem trailing_stop_active:
  assumes "open_trades symbol (ledger s) \<noteq> []"
    and "0 < avg_price (open_trades symbol (ledger s))"
    and "0 \<le> dca_drop_pct s" and "0 < ttp_activation_pct s"
    and "profit_pct current_price (open_trades symbol (ledger s)) = Inr pct"
    and "ttp_activation_pct s \<le> pct"
  shows
    "let trades = open_trades symbol (ledger s);
         stored = (case peak_prices s symbol of Some p \<Rightarrow> p | None \<Rightarrow> avg_price trades);
         peak = max stored current_price;
         s1 = update_peak symbol current_price trades s
     in peak_prices s1 = (peak_prices s)(symbol \<mapsto> peak)
        \<and> ledger s1 = ledger s \<and> orders s1 = orders s
        \<and> manage_open_positions client symbol current_price s =
            (if (peak - current_price) / peak \<ge> ttp_trail_pct s then
               execute_trade client symbol ''SELL'' current_price ''TTP''
                 (Some (total_amount trades)) (log_event (TrailingTriggered symbol) ''info'' s1)
             else Return s1)"
proof -
  let ?trades = "open_trades symbol (ledger s)"
  let ?stored = "case peak_prices s symbol of Some p \<Rightarrow> p | None \<Rightarrow> avg_price ?trades"
  let ?peak = "max ?stored current_price"
  let ?s1 = "update_peak symbol current_price ?trades s"
  have above: "avg_price ?trades < current_price"
    using activation_above_avg [OF assms(2) assms(5)] assms(4,6) by simp
  have pk: "peak_prices ?s1 = (peak_prices s)(symbol \<mapsto> ?peak)"
    by (rule update_peak_max) (simp add: above)
  have pos: "?peak \<noteq> 0"
    using above assms(2) by (simp add: max_def)
  have nodca: "\<not> pct \<le> - dca_drop_pct s"
    using assms(3,4,6) by simp
  have run: "manage_open_positions client symbol current_price s =
            (if (?peak - current_price) / ?peak \<ge> ttp_trail_pct s then
               execute_trade client symbol ''SELL'' current_price ''TTP''
                 (Some (total_amount ?trades)) (log_event (TrailingTriggered symbol) ''info'' ?s1)
             else Return ?s1)"
    using assms(1,5,6) nodca pos
    by (simp add: manage_open_positions_def Let_def pk py_div_def)
  show ?thesis
    unfolding Let_def using pk run by (simp add: update_peak_fields)
qed

text \<open>
  The example of the specification: one lot bought at 100, then the prices 104, 106 and
  104.8. The peak is 104, then 106, and at 104.8 the SELL for the whole amount is sent.
\<close>

theorem trailing_stop_active_witness:
  "state_of (manage_open_positions fills ''BTCUSDT'' 104 (init [open_lot ''BTCUSDT'' 100 1])) =
     (init [open_lot ''BTCUSDT'' 100 1])
       \<lparr> peak_prices := [''BTCUSDT'' \<mapsto> 104],
         events := [\<lparr>e_type = ''info'', e_msg = NewTrailingPeak ''BTCUSDT'' 104\<rparr>] \<rparr>
   \<and> state_of (manage_open_positions fills ''BTCUSDT'' 106
        ((init [open_lot ''BTCUSDT'' 100 1])
           \<lparr> peak_prices := [''BTCUSDT'' \<mapsto> 104],
             events := [\<lparr>e_type = ''info'', e_msg = NewTrailingPeak ''BTCUSDT'' 104\<rparr>] \<rparr>)) =
     (init [open_lot ''BTCUSDT'' 100 1])
       \<lparr> peak_prices := [''BTCUSDT'' \<mapsto> 106],
         events := [\<lparr>e_type = ''info'', e_msg = NewTrailingPeak ''BTCUSDT'' 104\<rparr>,
                    \<lparr>e_type = ''info'', e_msg = NewTrailingPeak ''BTCUSDT'' 106\<rparr>] \<rparr>
   \<and> (1 / 100 :: real) \<le> (106 - 524 / 5) / 106
   \<and> manage_open_positions fills ''BTCUSDT'' (524 / 5)
        ((init [open_lot ''BTCUSDT'' 100 1])
           \<lparr> peak_prices := [''BTCUSDT'' \<mapsto> 106],
             events := [\<lparr>e_type = ''info'', e_msg = NewTrailingPeak ''BTCUSDT'' 104\<rparr>,
                        \<lparr>e_type = ''info'', e_msg = NewTrailingPeak ''BTCUSDT'' 106\<rparr>] \<rparr>) =
      execute_trade fills ''BTCUSDT'' ''SELL'' (524 / 5) ''TTP'' (Some 1)
        (log_event (TrailingTriggered ''BTCUSDT'') ''info''
          ((init [open_lot ''BTCUSDT'' 100 1])
             \<lparr> peak_prices := [''BTCUSDT'' \<mapsto> 106],
               events := [\<lparr>e_type = ''info'', e_msg = NewTrailingPeak ''BTCUSDT'' 104\<rparr>,
                          \<lparr>e_type = ''info'', e_msg = NewTrailingPeak ''BTCUSDT'' 106\<rparr>] \<rparr>))
   \<and> orders (state_of (manage_open_positions fills ''BTCUSDT'' (524 / 5)
        ((init [open_lot ''BTCUSDT'' 100 1])
           \<lparr> peak_prices := [''BTCUSDT'' \<mapsto> 106],
             events := [\<lparr>e_type = ''info'', e_msg = NewTrailingPeak ''BTCUSDT'' 104\<rparr>,
                        \<lparr>e_type = ''info'', e_msg = NewTrailingPeak ''BTCUSDT'' 106\<rparr>] \<rparr>))) =
      [\<lparr> o_symbol = ''BTCUSDT'', o_amount = 1, o_side = ''SELL'', o_order_type = ''MARKET'' \<rparr>]
   \<and> ledger (state_of (manage_open_positions fills ''BTCUSDT'' (524 / 5)
        ((init [open_lot ''BTCUSDT'' 100 1])
           \<lparr> peak_prices := [''BTCUSDT'' \<mapsto> 106],
             events := [\<lparr>e_type = ''info'', e_msg = NewTrailingPeak ''BTCUSDT'' 104\<rparr>,
                        \<lparr>e_type = ''info'', e_msg = NewTrailingPeak ''BTCUSDT'' 106\<rparr>] \<rparr>))) =
      [(open_lot ''BTCUSDT'' 100 1)\<lparr> t_status := ''CLOSED'' \<rparr>]"
proof -
  let ?s0 = "init [open_lot ''BTCUSDT'' 100 1]"
  let ?s1 = "?s0\<lparr> peak_prices := [''BTCUSDT'' \<mapsto> 104],
                  events := [\<lparr>e_type = ''info'', e_msg = NewTrailingPeak ''BTCUSDT'' 104\<rparr>] \<rparr>"
  let ?s2 = "?s0\<lparr> peak_prices := [''BTCUSDT'' \<mapsto> 106],
                  events := [\<lparr>e_type = ''info'', e_msg = NewTrailingPeak ''BTCUSDT'' 104\<rparr>,
                             \<lparr>e_type = ''info'', e_msg = NewTrailingPeak ''BTCUSDT'' 106\<rparr>] \<rparr>"
  have first: "state_of (manage_open_positions fills ''BTCUSDT'' 104 ?s0) = ?s1"
    by (simp add: engine_defs)
  have second: "state_of (manage_open_positions fills ''BTCUSDT'' 106 ?s1) = ?s2"
    by (simp add: engine_defs)
  have dd: "(1 / 100 :: real) \<le> (106 - 524 / 5) / 106"
    by simp
  have a: "open_trades ''BTCUSDT'' (ledger ?s2) \<noteq> []"
    by (simp add: engine_defs)
  have b: "0 < avg_price (open_trades ''BTCUSDT'' (ledger ?s2))"
    by (simp add: engine_defs)
  have c: "0 \<le> dca_drop_pct ?s2" "0 < ttp_activation_pct ?s2"
    by (simp_all add: init_def)
  have d: "profit_pct (524 / 5) (open_trades ''BTCUSDT'' (ledger ?s2)) = Inr (6 / 125)"
    by (simp add: engine_defs)
  have e: "ttp_activation_pct ?s2 \<le> 6 / 125"
    by (simp add: init_def)
  have third: "manage_open_positions fills ''BTCUSDT'' (524 / 5) ?s2 =
      execute_trade fills ''BTCUSDT'' ''SELL'' (524 / 5) ''TTP'' (Some 1)
        (log_event (TrailingTriggered ''BTCUSDT'') ''info'' ?s2)"
    using trailing_stop_active [OF a b c d e, where client = fills]
    by (simp add: engine_defs)
  have sent: "orders (state_of (manage_open_positions fills ''BTCUSDT'' (524 / 5) ?s2)) =
      [\<lparr> o_symbol = ''BTCUSDT'', o_amount = 1, o_side = ''SELL'', o_order_type = ''MARKET'' \<rparr>]"
    unfolding third by (simp add: engine_defs)
  have closed: "ledger (state_of (manage_open_positions fills ''BTCUSDT'' (524 / 5) ?s2)) =
      [(open_lot ''BTCUSDT'' 100 1)\<lparr> t_status := ''CLOSED'' \<rparr>]"
    unfolding third by (simp add: engine_defs)
  show ?thesis
    by (intro conjI first second dd third sent closed)
qed

text \<open>
  C10. In the trailing branch (OPEN rows, positive average price, positive activation
  threshold, profit percentage at least the threshold) the state after the peak update
  holds a peak for the symbol, so the lookup \<^verbatim>\<open>self.peak_prices[symbol]\<close> finds it:
  \<^verbatim>\<open>manage_open_positions\<close> never raises \<^verbatim>\<open>KeyError\<close>.
\<close>

theorem peak_lookup_finds_entry:
  assumes "open_trades symbol (ledger s) \<noteq> []"
    and "0 < avg_price (open_trades symbol (ledger s))"
    and "0 < ttp_activation_pct s"
    and "profit_pct current_price (open_trades symbol (ledger s)) = Inr pct"
    and "ttp_activation_pct s \<le> pct"
  shows "avg_price (open_trades symbol (ledger s)) < current_price
         \<and> peak_prices (update_peak symbol current_price (open_trades symbol (ledger s)) s)
             symbol \<noteq> None
         \<and> (\<forall>k s'. manage_open_positions client symbol current_price s \<noteq> Raise (KeyError k) s')"
proof -
  let ?trades = "open_trades symbol (ledger s)"
  let ?s1 = "update_peak symbol current_price ?trades s"
  have above: "avg_price ?trades < current_price"
    using activation_above_avg [OF assms(2) assms(4)] assms(3,5) by simp
  have pk: "peak_prices ?s1 symbol \<noteq> None"
    by (simp add: update_peak_max above)
  then obtain peak where peak: "peak_prices ?s1 symbol = Some peak"
    by blast
  have "manage_open_positions client symbol current_price s \<noteq> Raise (KeyError k) s'" for k s'
    using assms(1,4)
    by (auto simp: manage_open_positions_def Let_def peak py_div_def
        dest: execute_trade_raises)
  with above pk show ?thesis by blast
qed

theorem peak_lookup_finds_entry_witness:
  "open_trades ''ETHUSDT'' (ledger (init [open_lot ''ETHUSDT'' 2000 (1 / 100)])) \<noteq> []
   \<and> 0 < avg_price (open_trades ''ETHUSDT'' (ledger (init [open_lot ''ETHUSDT'' 2000 (1 / 100)])))
   \<and> profit_pct 2060 (open_trades ''ETHUSDT'' (ledger (init [open_lot ''ETHUSDT'' 2000 (1 / 100)])))
       = Inr (3 / 100)
   \<and> peak_prices (update_peak ''ETHUSDT'' 2060
        (open_trades ''ETHUSDT'' (ledger (init [open_lot ''ETHUSDT'' 2000 (1 / 100)])))
        (init [open_lot ''ETHUSDT'' 2000 (1 / 100)])) ''ETHUSDT'' = Some 2060
   \<and> manage_open_positions rejects ''ETHUSDT'' 2060 (init [open_lot ''ETHUSDT'' 2000 (1 / 100)])
       \<noteq> Raise (KeyError ''ETHUSDT'') (init [open_lot ''ETHUSDT'' 2000 (1 / 100)])"
proof -
  let ?s = "init [open_lot ''ETHUSDT'' 2000 (1 / 100)]"
  have a: "open_trades ''ETHUSDT'' (ledger ?s) \<noteq> []"
    by (simp add: engine_defs)
  have b: "0 < avg_price (open_trades ''ETHUSDT'' (ledger ?s))"
    by (simp add: engine_defs)
  have c: "0 < ttp_activation_pct ?s"
    by (simp add: init_def)
  have d: "profit_pct 2060 (open_trades ''ETHUSDT'' (ledger ?s)) = Inr (3 / 100)"
    by (simp add: engine_defs)
  have e: "ttp_activation_pct ?s \<le> 3 / 100"
    by (simp add: init_def)
  have f: "peak_prices (update_peak ''ETHUSDT'' 2060 (open_trades ''ETHUSDT'' (ledger ?s)) ?s)
      ''ETHUSDT'' = Some 2060"
    by (simp add: engine_defs)
  from peak_lookup_finds_entry [OF a b c d e, where client = rejects]
  have g: "manage_open_positions rejects ''ETHUSDT'' 2060 ?s \<noteq> Raise (KeyError ''ETHUSDT'') ?s"
    by blast
  show ?thesis
    by (intro conjI a b d f g)
qed

subsection \<open>The weighted average\<close>

lemma sum_list_weighted:
  "total_cost trades = (\<Sum>t\<leftarrow>trades. t_price t * t_amount t)"
  "total_amount trades = (\<Sum>t\<leftarrow>trades. t_amount t)"
  by (simp_all add: total_cost_def total_amount_def)

text \<open>
  C4, as the code has it. When the total open amount is positive, the average entry price
  is the sum of price times amount divided by the sum of the amounts, and when that
  average is not zero the profit percentage is computed without raising. The rows
  (100, 1), (90, 1), (80, 2) give 350 / 4 = 87.5.
\<close>

theorem weighted_average_entry_price:
  assumes "0 < total_amount trades"
  shows "avg_price trades = (\<Sum>t\<leftarrow>trades. t_price t * t_amount t) / (\<Sum>t\<leftarrow>trades. t_amount t)
         \<and> (avg_price trades \<noteq> 0 \<longrightarrow>
              profit_pct current_price trades =
                Inr ((current_price - avg_price trades) / avg_price trades))"
  using assms
  by (simp add: avg_price_def profit_pct_def py_div_def total_cost_def total_amount_def)

theorem weighted_average_entry_price_witness:
  "0 < total_amount [open_lot ''BTCUSDT'' 100 1, open_lot ''BTCUSDT'' 90 1,
                     open_lot ''BTCUSDT'' 80 2]
   \<and> avg_price [open_lot ''BTCUSDT'' 100 1, open_lot ''BTCUSDT'' 90 1,
                 open_lot ''BTCUSDT'' 80 2] = 175 / 2
   \<and> profit_pct 91 [open_lot ''BTCUSDT'' 100 1, open_lot ''BTCUSDT'' 90 1,
                     open_lot ''BTCUSDT'' 80 2] = Inr (1 / 25)"
proof -
  let ?rows = "[open_lot ''BTCUSDT'' 100 1, open_lot ''BTCUSDT'' 90 1, open_lot ''BTCUSDT'' 80 2]"
  have a: "0 < total_amount ?rows"
    by (simp add: total_amount_def open_lot_def)
  note t = weighted_average_entry_price [OF a, where current_price = 91]
  from t have b: "avg_price ?rows = 175 / 2"
    by (simp add: open_lot_def)
  from t b have c: "profit_pct 91 ?rows = Inr (1 / 25)"
    by simp
  show ?thesis
    by (intro conjI a b c)
qed

text \<open>The value 82.5 of the specification's example is not what the code computes.\<close>

theorem weighted_average_example_counterexample:
  "avg_price [open_lot ''BTCUSDT'' 100 1, open_lot ''BTCUSDT'' 90 1, open_lot ''BTCUSDT'' 80 2]
     = 175 / 2
   \<and> avg_price [open_lot ''BTCUSDT'' 100 1, open_lot ''BTCUSDT'' 90 1,
                 open_lot ''BTCUSDT'' 80 2] \<noteq> 165 / 2"
  by (simp add: avg_price_def total_amount_def total_cost_def open_lot_def)

text \<open>
  The guard of line 141 gives the average 0 when the total open amount is not positive,
  and line 143 divides by that average. One OPEN row of amount 0, which a BUY inserts
  when the exchange reports \<^verbatim>\<open>executedQty\<close> 0, makes \<^verbatim>\<open>manage_open_positions\<close> raise
  \<^verbatim>\<open>ZeroDivisionError\<close>.
\<close>

lemma zero_total_amount_raises:
  "ledger (state_of (execute_trade
         (\<lambda>n req. Inr \<lparr> orderId = None, executedQty = Number 0 \<rparr>)
         ''BTCUSDT'' ''BUY'' 100 ''Strategy_Auto'' None (init []))) = [open_lot ''BTCUSDT'' 100 0]
   \<and> total_amount [open_lot ''BTCUSDT'' 100 0] = 0
   \<and> avg_price [open_lot ''BTCUSDT'' 100 0] = 0
   \<and> profit_pct 100 [open_lot ''BTCUSDT'' 100 0] = Inl ZeroDivisionError
   \<and> manage_open_positions client ''BTCUSDT'' 100 (init [open_lot ''BTCUSDT'' 100 0]) =
       Raise ZeroDivisionError (init [open_lot ''BTCUSDT'' 100 0])"
  by (simp add: engine_defs)

section \<open>Closing a position and opening the next\<close>

text \<open>
  Two snapshots of a market without a trend (ADX 20, so the scalping strategy is selected):
  one with RSI(7) at 50, where the strategy says HOLD, one with RSI(7) at 20, where it says
  BUY.
\<close>

definition calm :: "real \<Rightarrow> snapshot" where
  "calm p = \<lparr> close = p, ADX_14 = 20, EMA_50 = p, RSI_14 = 50, RSI_7 = 50, MACD_12_26_9 = 0,
              MACDs_12_26_9 = 0, MACD_12_26_9_prev = 0, MACDs_12_26_9_prev = 0 \<rparr>"

definition oversold :: "real \<Rightarrow> snapshot" where
  "oversold p = \<lparr> close = p, ADX_14 = 20, EMA_50 = p, RSI_14 = 50, RSI_7 = 20, MACD_12_26_9 = 0,
                  MACDs_12_26_9 = 0, MACD_12_26_9_prev = 0, MACDs_12_26_9_prev = 0 \<rparr>"

lemmas loop_defs =
  process_symbol_def check_open_position_def strategy_4_auto_ai_def
  strategy_1_trend_reversal_def strategy_2_rsi_scalping_def strategy_3_macd_cross_def
  calm_def oversold_def

lemma close_open_length: "length (close_open symbol rows) = length rows"
  by (simp add: close_open_def)

lemma close_open_nth:
  "i < length rows \<Longrightarrow>
     close_open symbol rows ! i =
       (if t_symbol (rows ! i) = symbol \<and> t_status (rows ! i) = ''OPEN''
        then (rows ! i)\<lparr>t_status := ''CLOSED''\<rparr> else rows ! i)"
  by (simp add: close_open_def)

lemma open_trades_close_open: "open_trades symbol (close_open symbol rows) = []"
  by (induction rows) (auto simp: open_trades_def close_open_def)

lemma open_trades_close_open_other:
  "other \<noteq> symbol \<Longrightarrow> open_trades other (close_open symbol rows) = open_trades other rows"
  by (induction rows) (auto simp: open_trades_def close_open_def)

lemma closed_stays_closed:
  "t \<in> set rows \<Longrightarrow> t_status t = ''CLOSED'' \<Longrightarrow> t \<in> set (close_open symbol rows)"
  by (induction rows) (auto simp: close_open_def)

lemma open_trades_append:
  "open_trades symbol (rows @ rows2) = open_trades symbol rows @ open_trades symbol rows2"
  by (simp add: open_trades_def)

lemma execute_trade_ledger:
  "ledger (state_of (execute_trade client symbol side price strategy_name ca s)) = ledger s
   \<or> (side = ''BUY'' \<and> (\<exists>row.
         ledger (state_of (execute_trade client symbol side price strategy_name ca s)) =
           ledger s @ [row]))
   \<or> (side = ''SELL'' \<and>
         ledger (state_of (execute_trade client symbol side price strategy_name ca s)) =
           close_open symbol (ledger s))"
  by (simp add: execute_trade_def record_fill_def log_event_def Let_def
      split: sum.splits qty_field.splits)

lemma manage_open_positions_ledger:
  "ledger (state_of (manage_open_positions client symbol current_price s)) = ledger s
   \<or> (\<exists>row. ledger (state_of (manage_open_positions client symbol current_price s)) =
         ledger s @ [row])
   \<or> ledger (state_of (manage_open_positions client symbol current_price s)) =
         close_open symbol (ledger s)"
proof -
  have e: "ledger (state_of (execute_trade client symbol side current_price strategy_name ca s0))
             = ledger s
           \<or> (\<exists>row. ledger (state_of (execute_trade client symbol side current_price
                 strategy_name ca s0)) = ledger s @ [row])
           \<or> ledger (state_of (execute_trade client symbol side current_price strategy_name
                 ca s0)) = close_open symbol (ledger s)"
    if "ledger s0 = ledger s" for side strategy_name ca s0
    using execute_trade_ledger [of client symbol side current_price strategy_name ca s0] that
    by auto
  show ?thesis
    unfolding manage_open_positions_def Let_def
    by (auto simp: update_peak_fields log_event_def split: sum.splits option.splits
        intro!: e)
qed

subsection \<open>The group close\<close>

text \<open>
  C7, as the code has it. A SELL that the exchange accepts changes the table in one
  update: the table keeps its length, every row of the symbol that was OPEN is CLOSED,
  every other row is as before. So the symbol has no OPEN row right after the SELL, the
  OPEN rows of the other symbols are untouched, and a row that was CLOSED stays in the
  table as it was.
\<close>

theorem sell_closes_every_open_row:
  assumes "quantity s ''SELL'' price close_all_amount = Inr qty"
    and "\<not> qty * price < 10"
    and "client (length (orders s))
           \<lparr> o_symbol = symbol, o_amount = qty, o_side = ''SELL'', o_order_type = ''MARKET'' \<rparr>
         = Inr order_res"
    and "executedQty order_res \<noteq> Unparsable"
  shows
    "let rows = ledger s;
         rows' = ledger (state_of (execute_trade client symbol ''SELL'' price strategy_name
                   close_all_amount s))
     in length rows' = length rows
        \<and> (\<forall>i < length rows.
              rows' ! i = (if t_symbol (rows ! i) = symbol \<and> t_status (rows ! i) = ''OPEN''
                           then (rows ! i)\<lparr>t_status := ''CLOSED''\<rparr> else rows ! i))
        \<and> open_trades symbol rows' = []
        \<and> (\<forall>other. other \<noteq> symbol \<longrightarrow> open_trades other rows' = open_trades other rows)
        \<and> (\<forall>t \<in> set rows. t_status t = ''CLOSED'' \<longrightarrow> t \<in> set rows')"
proof -
  have run: "ledger (state_of (execute_trade client symbol ''SELL'' price strategy_name
                   close_all_amount s)) = close_open symbol (ledger s)"
    using assms
    by (simp add: execute_trade_def record_fill_def log_event_def Let_def
        split: qty_field.splits)
  show ?thesis
    unfolding Let_def run
    by (simp add: close_open_length close_open_nth open_trades_close_open
        open_trades_close_open_other closed_stays_closed)
qed

theorem sell_closes_every_open_row_witness:
  "quantity (init [open_lot ''BTCUSDT'' 100 1, open_lot ''ETHUSDT'' 2000 (1 / 100),
                   open_lot ''BTCUSDT'' 90 1]) ''SELL'' 110 (Some 2) = Inr 2
   \<and> \<not> 2 * 110 < (10 :: real)
   \<and> ledger (state_of (execute_trade fills ''BTCUSDT'' ''SELL'' 110 ''TTP'' (Some 2)
        (init [open_lot ''BTCUSDT'' 100 1, open_lot ''ETHUSDT'' 2000 (1 / 100),
               open_lot ''BTCUSDT'' 90 1]))) =
      [(open_lot ''BTCUSDT'' 100 1)\<lparr>t_status := ''CLOSED''\<rparr>,
       open_lot ''ETHUSDT'' 2000 (1 / 100),
       (open_lot ''BTCUSDT'' 90 1)\<lparr>t_status := ''CLOSED''\<rparr>]
   \<and> open_trades ''BTCUSDT'' (ledger (state_of (execute_trade fills ''BTCUSDT'' ''SELL'' 110
        ''TTP'' (Some 2)
        (init [open_lot ''BTCUSDT'' 100 1, open_lot ''ETHUSDT'' 2000 (1 / 100),
               open_lot ''BTCUSDT'' 90 1])))) = []"
proof -
  let ?s = "init [open_lot ''BTCUSDT'' 100 1, open_lot ''ETHUSDT'' 2000 (1 / 100),
                  open_lot ''BTCUSDT'' 90 1]"
  let ?res = "\<lparr> orderId = None, executedQty = Number 2 \<rparr>"
  have a: "quantity ?s ''SELL'' 110 (Some 2) = Inr 2"
    by (simp add: quantity_def)
  have b: "\<not> 2 * 110 < (10 :: real)"
    by simp
  have c: "fills (length (orders ?s))
             \<lparr> o_symbol = ''BTCUSDT'', o_amount = 2, o_side = ''SELL'',
               o_order_type = ''MARKET'' \<rparr> = Inr ?res"
    by (simp add: fills_def)
  have d: "executedQty ?res \<noteq> Unparsable"
    by simp
  note t = sell_closes_every_open_row [where client = fills and symbol = "''BTCUSDT''"
      and strategy_name = "''TTP''", OF a b c d, unfolded Let_def]
  from t have e: "open_trades ''BTCUSDT'' (ledger (state_of (execute_trade fills ''BTCUSDT''
      ''SELL'' 110 ''TTP'' (Some 2) ?s))) = []"
    by blast
  have f: "ledger (state_of (execute_trade fills ''BTCUSDT'' ''SELL'' 110 ''TTP'' (Some 2) ?s)) =
      [(open_lot ''BTCUSDT'' 100 1)\<lparr>t_status := ''CLOSED''\<rparr>,
       open_lot ''ETHUSDT'' 2000 (1 / 100),
       (open_lot ''BTCUSDT'' 90 1)\<lparr>t_status := ''CLOSED''\<rparr>]"
    by (simp add: engine_defs)
  show ?thesis
    by (intro conjI a b f e)
qed

text \<open>
  The rows of one symbol are not all OPEN or all CLOSED at the end of every cycle. One lot
  bought at 100; the cycles at 104, 106 and 104.8 arm the trailing stop and sell; in the
  next cycle the strategy signals BUY at 104: the table then holds the CLOSED lot and a new
  OPEN lot of the same symbol.
\<close>

theorem all_open_or_all_closed_counterexample:
  "ledger (process_symbol fills (Inr (oversold 104)) ''BTCUSDT''
     (process_symbol fills (Inr (calm (524 / 5))) ''BTCUSDT''
       (process_symbol fills (Inr (calm 106)) ''BTCUSDT''
         (process_symbol fills (Inr (calm 104)) ''BTCUSDT''
           (init [open_lot ''BTCUSDT'' 100 1])))))
   = [(open_lot ''BTCUSDT'' 100 1)\<lparr>t_status := ''CLOSED''\<rparr>,
      open_lot ''BTCUSDT'' 104 (15 / 104)]
   \<and> t_status ((open_lot ''BTCUSDT'' 100 1)\<lparr>t_status := ''CLOSED''\<rparr>) = ''CLOSED''
   \<and> t_status (open_lot ''BTCUSDT'' 104 (15 / 104)) = ''OPEN''"
  by (simp add: engine_defs loop_defs)

subsection \<open>New entries\<close>

text \<open>
  C8, as the code has it. The loop asks the table after the Position Manager has run
  (\<^verbatim>\<open>check_open_position\<close>); it keeps no record of a management action. So when the symbol
  has an OPEN row after the Position Manager, nothing follows it in the cycle: the state
  at the end of the cycle is the one the Position Manager left (with the error event when
  it raised). A cycle that starts with OPEN rows ends without them only when the table
  was changed by the group close of a SELL; in particular after an averaging-down BUY the
  rows are still OPEN and no entry follows.
\<close>

theorem entry_only_without_open_row:
  assumes "strategy_4_auto_ai df = (regime, active_strategy)"
    and "m = manage_open_positions client symbol (close df)
               (log_event (MarketRegime regime (strategy_fn_name active_strategy)) ''info'' s)"
  shows "(open_trades symbol (ledger (state_of m)) \<noteq> [] \<longrightarrow>
            process_symbol client (Inr df) symbol s =
              (case m of Return s1 \<Rightarrow> s1
               | Raise e s1 \<Rightarrow> log_event (ProcessingError symbol e) ''error'' s1))
         \<and> (open_trades symbol (ledger s) \<noteq> [] \<and> open_trades symbol (ledger (state_of m)) = []
              \<longrightarrow> ledger (state_of m) = close_open symbol (ledger s))
         \<and> (\<forall>pct. open_trades symbol (ledger s) \<noteq> []
                \<and> profit_pct (close df) (open_trades symbol (ledger s)) = Inr pct
                \<and> pct \<le> - dca_drop_pct s
              \<longrightarrow> open_trades symbol (ledger (state_of m)) \<noteq> [])"
proof -
  let ?s0 = "log_event (MarketRegime regime (strategy_fn_name active_strategy)) ''info'' s"
  have l0: "ledger ?s0 = ledger s" and d0: "dca_drop_pct ?s0 = dca_drop_pct s"
    by (simp_all add: log_event_def)
  have A: "open_trades symbol (ledger (state_of m)) \<noteq> [] \<longrightarrow>
            process_symbol client (Inr df) symbol s =
              (case m of Return s1 \<Rightarrow> s1
               | Raise e s1 \<Rightarrow> log_event (ProcessingError symbol e) ''error'' s1)"
  proof (cases m)
    case (Return s1)
    then have "manage_open_positions client symbol (close df) ?s0 = Return s1"
      by (simp add: assms(2))
    then show ?thesis
      using assms(1) Return
      by (simp add: process_symbol_def check_open_position_def Let_def)
  next
    case (Raise e s1)
    then have "manage_open_positions client symbol (close df) ?s0 = Raise e s1"
      by (simp add: assms(2))
    then show ?thesis
      using assms(1) Raise
      by (simp add: process_symbol_def Let_def)
  qed
  have shape: "ledger (state_of m) = ledger s
      \<or> (\<exists>row. ledger (state_of m) = ledger s @ [row])
      \<or> ledger (state_of m) = close_open symbol (ledger s)"
    using manage_open_positions_ledger [of client symbol "close df" ?s0]
    by (simp add: assms(2) l0)
  have B: "open_trades symbol (ledger s) \<noteq> [] \<and> open_trades symbol (ledger (state_of m)) = []
              \<longrightarrow> ledger (state_of m) = close_open symbol (ledger s)"
    using shape by (auto simp: open_trades_append)
  have C: "open_trades symbol (ledger (state_of m)) \<noteq> []"
    if "open_trades symbol (ledger s) \<noteq> []"
      and "profit_pct (close df) (open_trades symbol (ledger s)) = Inr pct"
      and "pct \<le> - dca_drop_pct s" for pct
  proof -
    have "m = execute_trade client symbol ''BUY'' (close df) ''DCA'' None
                (log_event (SmartDCA symbol pct) ''info'' ?s0)"
      using that by (simp add: assms(2) manage_open_positions_def Let_def l0 d0)
    then have "ledger (state_of m) = ledger s \<or> (\<exists>row. ledger (state_of m) = ledger s @ [row])"
      using execute_trade_ledger [of client symbol "''BUY''" "close df" "''DCA''" None
          "log_event (SmartDCA symbol pct) ''info'' ?s0"]
      by (auto simp: log_event_def)
    with that(1) show ?thesis
      by (auto simp: open_trades_append)
  qed
  from A B C show ?thesis by blast
qed

theorem entry_only_without_open_row_witness:
  "strategy_4_auto_ai (oversold 94) = (''SIDEWAYS'', Strategy_2_rsi_scalping)
   \<and> run_strategy Strategy_2_rsi_scalping (oversold 94) = ''BUY''
   \<and> open_trades ''BTCUSDT'' (ledger (init [open_lot ''BTCUSDT'' 100 1])) \<noteq> []
   \<and> profit_pct (close (oversold 94))
        (open_trades ''BTCUSDT'' (ledger (init [open_lot ''BTCUSDT'' 100 1]))) = Inr (- (3 / 50))
   \<and> process_symbol fills (Inr (oversold 94)) ''BTCUSDT'' (init [open_lot ''BTCUSDT'' 100 1]) =
       state_of (manage_open_positions fills ''BTCUSDT'' (close (oversold 94))
         (log_event (MarketRegime ''SIDEWAYS'' (strategy_fn_name Strategy_2_rsi_scalping))
            ''info'' (init [open_lot ''BTCUSDT'' 100 1])))
   \<and> orders (process_symbol fills (Inr (oversold 94)) ''BTCUSDT''
        (init [open_lot ''BTCUSDT'' 100 1])) =
       [\<lparr> o_symbol = ''BTCUSDT'', o_amount = 15 / 94, o_side = ''BUY'',
          o_order_type = ''MARKET'' \<rparr>]
   \<and> map t_strategy (ledger (process_symbol fills (Inr (oversold 94)) ''BTCUSDT''
        (init [open_lot ''BTCUSDT'' 100 1]))) = [''Strategy_Auto'', ''DCA'']"
proof -
  let ?s = "init [open_lot ''BTCUSDT'' 100 1]"
  let ?m = "manage_open_positions fills ''BTCUSDT'' (close (oversold 94))
         (log_event (MarketRegime ''SIDEWAYS'' (strategy_fn_name Strategy_2_rsi_scalping))
            ''info'' ?s)"
  have a: "strategy_4_auto_ai (oversold 94) = (''SIDEWAYS'', Strategy_2_rsi_scalping)"
    by (simp add: loop_defs)
  have sig: "run_strategy Strategy_2_rsi_scalping (oversold 94) = ''BUY''"
    by (simp add: loop_defs)
  have b: "open_trades ''BTCUSDT'' (ledger ?s) \<noteq> []"
    by (simp add: engine_defs)
  have c: "profit_pct (close (oversold 94)) (open_trades ''BTCUSDT'' (ledger ?s)) =
      Inr (- (3 / 50))"
    by (simp add: engine_defs loop_defs)
  have d: "- (3 / 50) \<le> - dca_drop_pct ?s"
    by (simp add: init_def)
  have ret: "?m = Return (state_of ?m)"
    by (simp add: engine_defs loop_defs)
  note t = entry_only_without_open_row [OF a refl, where client = fills
      and symbol = "''BTCUSDT''" and s = ?s]
  from t b c d have still: "open_trades ''BTCUSDT'' (ledger (state_of ?m)) \<noteq> []"
    by blast
  with t have "process_symbol fills (Inr (oversold 94)) ''BTCUSDT'' ?s =
      (case ?m of Return s1 \<Rightarrow> s1
       | Raise e s1 \<Rightarrow> log_event (ProcessingError ''BTCUSDT'' e) ''error'' s1)"
    by blast
  then have e: "process_symbol fills (Inr (oversold 94)) ''BTCUSDT'' ?s = state_of ?m"
    by (subst (asm) ret) simp
  have f: "orders (state_of ?m) =
       [\<lparr> o_symbol = ''BTCUSDT'', o_amount = 15 / 94, o_side = ''BUY'',
          o_order_type = ''MARKET'' \<rparr>]"
    by (simp add: engine_defs loop_defs)
  have g: "map t_strategy (ledger (state_of ?m)) = [''Strategy_Auto'', ''DCA'']"
    by (simp add: engine_defs loop_defs)
  show ?thesis
    unfolding e by (intro conjI a sig b c refl f g)
qed

text \<open>
  A cycle in which the trailing-stop SELL closes the position can open the next one. One
  lot bought at 100 and the cycles at 104 and 106 leave the lot OPEN with the peak 106; in
  the cycle at 104.8, where the strategy signals BUY, the SELL closes the lot, the table
  then has no OPEN row of the symbol, and the entry BUY is sent and recorded.
\<close>

theorem sell_then_entry_same_cycle_counterexample:
  "ledger (process_symbol fills (Inr (calm 106)) ''BTCUSDT''
     (process_symbol fills (Inr (calm 104)) ''BTCUSDT'' (init [open_lot ''BTCUSDT'' 100 1])))
   = [open_lot ''BTCUSDT'' 100 1]
   \<and> orders (process_symbol fills (Inr (calm 106)) ''BTCUSDT''
     (process_symbol fills (Inr (calm 104)) ''BTCUSDT'' (init [open_lot ''BTCUSDT'' 100 1])))
   = []
   \<and> ledger (process_symbol fills (Inr (oversold (524 / 5))) ''BTCUSDT''
       (process_symbol fills (Inr (calm 106)) ''BTCUSDT''
         (process_symbol fills (Inr (calm 104)) ''BTCUSDT'' (init [open_lot ''BTCUSDT'' 100 1]))))
   = [(open_lot ''BTCUSDT'' 100 1)\<lparr>t_status := ''CLOSED''\<rparr>,
      open_lot ''BTCUSDT'' (524 / 5) (75 / 524)]
   \<and> orders (process_symbol fills (Inr (oversold (524 / 5))) ''BTCUSDT''
       (process_symbol fills (Inr (calm 106)) ''BTCUSDT''
         (process_symbol fills (Inr (calm 104)) ''BTCUSDT'' (init [open_lot ''BTCUSDT'' 100 1]))))
   = [\<lparr> o_symbol = ''BTCUSDT'', o_amount = 1, o_side = ''SELL'', o_order_type = ''MARKET'' \<rparr>,
      \<lparr> o_symbol = ''BTCUSDT'', o_amount = 75 / 524, o_side = ''BUY'',
        o_order_type = ''MARKET'' \<rparr>]"
  by (simp add: engine_defs loop_defs)

section \<open>The stored peak\<close>

subsection \<open>Runs of the loop\<close>

text \<open>
  What happens to the engine from outside: an iteration of the loop of \<^verbatim>\<open>run\<close> for one
  symbol, with the exchange's behaviour and the market data of that moment, or the
  command \<^verbatim>\<open>update_trade_amount\<close> of the dashboard. A run is a sequence of these.
\<close>

datatype input = Tick gateway "exn + snapshot" string | UpdateTradeAmount real

fun step :: "state \<Rightarrow> input \<Rightarrow> state" where
  "step s (Tick client candles symbol) = process_symbol client candles symbol s"
| "step s (UpdateTradeAmount new_amount) = snd (set_trade_amount new_amount s)"

definition run :: "input list \<Rightarrow> state \<Rightarrow> state" where
  "run inputs s = foldl step s inputs"

text \<open>
  What is taken for granted of the outside: a close price is positive, and the exchange
  does not report a negative executed quantity for an order of a non-negative quantity.
  Rows found in the table at the start have a positive price and a non-negative amount.
\<close>

definition sane_exchange :: "gateway \<Rightarrow> bool" where
  "sane_exchange client =
     (\<forall>n req res q. client n req = Inr res \<longrightarrow> executedQty res = Number q \<longrightarrow>
        0 \<le> o_amount req \<longrightarrow> 0 \<le> q)"

fun sane_input :: "input \<Rightarrow> bool" where
  "sane_input (Tick client (Inr df) symbol) = (0 < close df \<and> sane_exchange client)"
| "sane_input (Tick client (Inl e) symbol) = True"
| "sane_input (UpdateTradeAmount new_amount) = True"

definition rows_ok :: "trade list \<Rightarrow> bool" where
  "rows_ok rows = (\<forall>t \<in> set rows. 0 < t_price t \<and> 0 \<le> t_amount t)"

definition cfg_ok :: "state \<Rightarrow> bool" where
  "cfg_ok s = (0 \<le> dca_drop_pct s \<and> 0 < ttp_activation_pct s \<and> 0 \<le> ttp_trail_pct s
               \<and> 0 < trade_amount_usdt s)"

definition peaks_ok :: "state \<Rightarrow> bool" where
  "peaks_ok s =
     (\<forall>symbol p. peak_prices s symbol = Some p \<longrightarrow>
        0 < p \<and> (open_trades symbol (ledger s) \<noteq> [] \<longrightarrow>
                  avg_price (open_trades symbol (ledger s)) \<le> p))"

definition inv :: "state \<Rightarrow> bool" where
  "inv s = (cfg_ok s \<and> rows_ok (ledger s) \<and> peaks_ok s)"

subsection \<open>The average price of more rows\<close>

lemma rows_ok_open_trades: "rows_ok rows \<Longrightarrow> rows_ok (open_trades symbol rows)"
  by (simp add: rows_ok_def open_trades_def)

lemma rows_ok_append: "rows_ok (rows @ rows2) \<longleftrightarrow> rows_ok rows \<and> rows_ok rows2"
  by (auto simp: rows_ok_def)

lemma rows_ok_close_open: "rows_ok rows \<Longrightarrow> rows_ok (close_open symbol rows)"
  by (auto simp: rows_ok_def close_open_def)

lemma total_cost_nonneg: "rows_ok trades \<Longrightarrow> 0 \<le> total_cost trades"
  by (induction trades) (auto simp: rows_ok_def total_cost_def)

lemma avg_price_nonneg: "rows_ok trades \<Longrightarrow> 0 \<le> avg_price trades"
  using total_cost_nonneg [of trades] by (simp add: avg_price_def)

lemma avg_price_nonzero: "avg_price trades \<noteq> 0 \<Longrightarrow> 0 < total_amount trades"
  by (simp add: avg_price_def split: if_splits)

lemma avg_price_append_le:
  assumes "0 < total_amount trades" and "t_price new \<le> avg_price trades"
    and "0 \<le> t_amount new"
  shows "avg_price (trades @ [new]) \<le> avg_price trades"
proof -
  let ?A = "total_amount trades" and ?C = "total_cost trades"
  let ?p = "t_price new" and ?q = "t_amount new"
  have avg: "avg_price trades = ?C / ?A"
    using assms(1) by (simp add: avg_price_def)
  have tot: "total_amount (trades @ [new]) = ?A + ?q"
    and cost: "total_cost (trades @ [new]) = ?C + ?p * ?q"
    by (simp_all add: total_amount_def total_cost_def)
  have pos: "0 < ?A + ?q"
    using assms(1,3) by simp
  have "?p * ?A \<le> ?C"
    using assms(1,2) by (simp add: avg pos_le_divide_eq)
  then have "?q * (?p * ?A) \<le> ?q * ?C"
    using assms(3) by (rule mult_left_mono)
  then have "(?C + ?p * ?q) * ?A \<le> ?C * (?A + ?q)"
    by (simp add: algebra_simps)
  then have "(?C + ?p * ?q) / (?A + ?q) \<le> ?C / ?A"
    using assms(1) pos by (simp add: divide_le_eq pos_le_divide_eq ac_simps)
  then show ?thesis
    using pos assms(1) by (simp add: avg_price_def tot cost)
qed

lemma avg_price_single: "0 \<le> t_price new \<Longrightarrow> avg_price [new] \<le> t_price new"
  by (simp add: avg_price_def total_amount_def total_cost_def)

subsection \<open>What the engine's functions keep\<close>

lemma log_event_fields:
  "trade_amount_usdt (log_event m level s) = trade_amount_usdt s"
  "dca_drop_pct (log_event m level s) = dca_drop_pct s"
  "ttp_activation_pct (log_event m level s) = ttp_activation_pct s"
  "ttp_trail_pct (log_event m level s) = ttp_trail_pct s"
  "peak_prices (log_event m level s) = peak_prices s"
  "ledger (log_event m level s) = ledger s"
  "orders (log_event m level s) = orders s"
  by (simp_all add: log_event_def)

lemma execute_trade_frame:
  "trade_amount_usdt (state_of (execute_trade client symbol side price strategy_name ca s)) =
     trade_amount_usdt s"
  "dca_drop_pct (state_of (execute_trade client symbol side price strategy_name ca s)) =
     dca_drop_pct s"
  "ttp_activation_pct (state_of (execute_trade client symbol side price strategy_name ca s)) =
     ttp_activation_pct s"
  "ttp_trail_pct (state_of (execute_trade client symbol side price strategy_name ca s)) =
     ttp_trail_pct s"
  by (simp_all add: execute_trade_def log_event_def Let_def split: sum.splits qty_field.splits)

lemma inv_cong:
  assumes "trade_amount_usdt s' = trade_amount_usdt s" and "dca_drop_pct s' = dca_drop_pct s"
    and "ttp_activation_pct s' = ttp_activation_pct s" and "ttp_trail_pct s' = ttp_trail_pct s"
    and "peak_prices s' = peak_prices s" and "ledger s' = ledger s"
  shows "inv s' = inv s"
  using assms by (simp add: inv_def cfg_ok_def peaks_ok_def)

lemma inv_log_event: "inv (log_event m level s) = inv s"
  by (rule inv_cong) (simp_all add: log_event_fields)

lemma inv_clear:
  "inv s \<Longrightarrow> inv (s\<lparr>peak_prices := (peak_prices s)(symbol := None)\<rparr>)"
  by (simp add: inv_def cfg_ok_def peaks_ok_def)

lemma open_trades_single:
  "open_trades symbol [new] = (if t_symbol new = symbol \<and> t_status new = ''OPEN'' then [new] else [])"
  by (simp add: open_trades_def)

lemma inv_append_row:
  assumes "inv s"
    and "trade_amount_usdt s' = trade_amount_usdt s" and "dca_drop_pct s' = dca_drop_pct s"
    and "ttp_activation_pct s' = ttp_activation_pct s" and "ttp_trail_pct s' = ttp_trail_pct s"
    and "peak_prices s' = peak_prices s" and "ledger s' = ledger s @ [new]"
    and "t_symbol new = symbol" and "t_status new = ''OPEN''"
    and "0 < t_price new" and "0 \<le> t_amount new"
    and "\<And>p. peak_prices s symbol = Some p \<Longrightarrow>
           avg_price (open_trades symbol (ledger s) @ [new]) \<le> p"
  shows "inv s'"
proof -
  have cfg: "cfg_ok s'"
    using assms(1-5) by (simp add: inv_def cfg_ok_def)
  have rows: "rows_ok (ledger s')"
    using assms(1,7,10,11) by (simp add: inv_def rows_ok_append) (simp add: rows_ok_def)
  have peaks: "peaks_ok s'"
    unfolding peaks_ok_def
  proof (intro allI impI)
    fix sym p
    assume "peak_prices s' sym = Some p"
    then have p: "peak_prices s sym = Some p"
      by (simp add: assms(6))
    with assms(1) have pos: "0 < p"
      and old: "open_trades sym (ledger s) \<noteq> [] \<Longrightarrow> avg_price (open_trades sym (ledger s)) \<le> p"
      by (auto simp: inv_def peaks_ok_def)
    have "avg_price (open_trades sym (ledger s')) \<le> p" if ne: "open_trades sym (ledger s') \<noteq> []"
    proof (cases "sym = symbol")
      case True
      then show ?thesis
        using assms(12) [of p] p
        by (simp add: assms(7,8,9) open_trades_append open_trades_single)
    next
      case False
      then have "open_trades sym (ledger s') = open_trades sym (ledger s)"
        by (simp add: assms(7,8) open_trades_append open_trades_single)
      with ne old show ?thesis by simp
    qed
    with pos show "0 < p \<and> (open_trades sym (ledger s') \<noteq> [] \<longrightarrow>
        avg_price (open_trades sym (ledger s')) \<le> p)"
      by simp
  qed
  from cfg rows peaks show ?thesis by (simp add: inv_def)
qed

lemma inv_close_open:
  assumes "inv s"
    and "trade_amount_usdt s' = trade_amount_usdt s" and "dca_drop_pct s' = dca_drop_pct s"
    and "ttp_activation_pct s' = ttp_activation_pct s" and "ttp_trail_pct s' = ttp_trail_pct s"
    and "peak_prices s' = peak_prices s" and "ledger s' = close_open symbol (ledger s)"
  shows "inv s'"
proof -
  have "open_trades sym (ledger s') \<noteq> [] \<Longrightarrow>
          open_trades sym (ledger s') = open_trades sym (ledger s)" for sym
    by (cases "sym = symbol")
      (simp_all add: assms(7) open_trades_close_open open_trades_close_open_other)
  then show ?thesis
    using assms(1-6) rows_ok_close_open [of "ledger s" symbol]
    by (simp add: inv_def cfg_ok_def peaks_ok_def assms(7)) metis
qed

lemma inv_update_peak:
  assumes "inv s" and "avg_price (open_trades symbol (ledger s)) < current_price"
    and "0 < current_price"
  shows "inv (update_peak symbol current_price (open_trades symbol (ledger s)) s)
         \<and> (\<exists>p. peak_prices (update_peak symbol current_price (open_trades symbol (ledger s)) s)
                  symbol = Some p \<and> current_price \<le> p)"
  using assms
  by (auto simp: update_peak_def log_event_def Let_def inv_def cfg_ok_def peaks_ok_def
      split: option.splits)

lemma execute_buy_effect:
  assumes "sane_exchange client" and "0 < trade_amount_usdt s" and "0 < price"
  shows "ledger (state_of (execute_trade client symbol ''BUY'' price strategy_name None s)) =
           ledger s
         \<or> (\<exists>i q. 0 \<le> q \<and>
              ledger (state_of (execute_trade client symbol ''BUY'' price strategy_name None s)) =
                ledger s @ [\<lparr> t_symbol = symbol, t_order_id = i, t_side = ''BUY'',
                               t_price = price, t_amount = q, t_strategy = strategy_name,
                               t_status = ''OPEN'' \<rparr>])"
proof -
  let ?qty = "trade_amount_usdt s / price"
  let ?req = "\<lparr> o_symbol = symbol, o_amount = ?qty, o_side = ''BUY'', o_order_type = ''MARKET'' \<rparr>"
  have q: "quantity s ''BUY'' price None = Inr ?qty"
    using assms(3) by (simp add: quantity_def py_div_def)
  have qpos: "0 \<le> ?qty"
    using assms(2,3) by simp
  have filled: "0 \<le> x" if "client (length (orders s)) ?req = Inr res"
    and "executedQty res = Number x" for res x
    using assms(1) that qpos unfolding sane_exchange_def
    by (metis order_req.select_convs(2))
  show ?thesis
    using q qpos filled
    by (auto simp: execute_trade_def record_fill_def log_event_def Let_def
        split: sum.splits qty_field.splits)
qed

lemma execute_sell_effect:
  "ledger (state_of (execute_trade client symbol ''SELL'' price strategy_name ca s)) = ledger s
   \<or> ledger (state_of (execute_trade client symbol ''SELL'' price strategy_name ca s)) =
       close_open symbol (ledger s)"
  using execute_trade_ledger [of client symbol "''SELL''" price strategy_name ca s]
  by auto

subsection \<open>The Position Manager and the loop keep the invariant\<close>

lemma dca_price_below_avg:
  assumes "rows_ok trades" and "profit_pct current_price trades = Inr pct" and "pct \<le> 0"
  shows "0 < total_amount trades \<and> current_price \<le> avg_price trades"
proof -
  from assms(2) have nz: "avg_price trades \<noteq> 0"
    and pct: "pct = (current_price - avg_price trades) / avg_price trades"
    by (auto simp: profit_pct_def py_div_def split: if_splits)
  from nz avg_price_nonneg [OF assms(1)] have pos: "0 < avg_price trades"
    by simp
  from pct assms(3) pos have "current_price - avg_price trades \<le> 0"
    by (simp add: divide_le_0_iff)
  with avg_price_nonzero [OF nz] show ?thesis by simp
qed

lemma manage_open_positions_inv:
  assumes "inv s" and "sane_exchange client" and "0 < current_price"
  shows "inv (state_of (manage_open_positions client symbol current_price s))
         \<and> (open_trades symbol
               (ledger (state_of (manage_open_positions client symbol current_price s))) = []
             \<longrightarrow> (\<forall>p. peak_prices (state_of (manage_open_positions client symbol
                           current_price s)) symbol = Some p \<longrightarrow> current_price \<le> p))"
    (is "inv (state_of ?m) \<and> ?post")
proof (cases "open_trades symbol (ledger s) = []")
  case True
  then have "state_of ?m = s\<lparr>peak_prices := (peak_prices s)(symbol := None)\<rparr>"
    by (simp add: manage_open_positions_def)
  then show ?thesis
    using inv_clear [OF assms(1), of symbol] by simp
next
  case ne: False
  let ?T = "open_trades symbol (ledger s)"
  have rows: "rows_ok ?T"
    using assms(1) by (simp add: inv_def rows_ok_open_trades)
  have cfg: "0 \<le> dca_drop_pct s" "0 < ttp_activation_pct s" "0 < trade_amount_usdt s"
    using assms(1) by (simp_all add: inv_def cfg_ok_def)
  show ?thesis
  proof (cases "profit_pct current_price ?T")
    case (Inl e)
    with ne have "state_of ?m = s"
      by (simp add: manage_open_positions_def)
    with assms(1) ne show ?thesis by simp
  next
    case (Inr pct)
    consider (dca) "pct \<le> - dca_drop_pct s"
      | (ttp) "\<not> pct \<le> - dca_drop_pct s" "ttp_activation_pct s \<le> pct"
      | (idle) "\<not> pct \<le> - dca_drop_pct s" "\<not> ttp_activation_pct s \<le> pct"
      by blast
    then show ?thesis
    proof cases
      case dca
      let ?s0 = "log_event (SmartDCA symbol pct) ''info'' s"
      let ?r = "execute_trade client symbol ''BUY'' current_price ''DCA'' None ?s0"
      have m: "?m = ?r"
        using ne Inr dca by (simp add: manage_open_positions_def)
      have below: "0 < total_amount ?T" "current_price \<le> avg_price ?T"
        using dca_price_below_avg [OF rows Inr] dca cfg(1) by simp_all
      have frame: "trade_amount_usdt (state_of ?r) = trade_amount_usdt s"
        "dca_drop_pct (state_of ?r) = dca_drop_pct s"
        "ttp_activation_pct (state_of ?r) = ttp_activation_pct s"
        "ttp_trail_pct (state_of ?r) = ttp_trail_pct s"
        "peak_prices (state_of ?r) = peak_prices s"
        by (simp_all add: execute_trade_frame execute_trade_peak_prices log_event_fields)
      from execute_buy_effect [OF assms(2), of ?s0 current_price symbol "''DCA''"] cfg(3) assms(3)
      consider (same) "ledger (state_of ?r) = ledger s"
        | (more) i q where "0 \<le> q"
            "ledger (state_of ?r) = ledger s @
               [\<lparr> t_symbol = symbol, t_order_id = i, t_side = ''BUY'', t_price = current_price,
                  t_amount = q, t_strategy = ''DCA'', t_status = ''OPEN'' \<rparr>]"
        by (auto simp: log_event_fields)
      then show ?thesis
      proof cases
        case same
        then have "inv (state_of ?r) = inv s"
          using frame by (intro inv_cong) simp_all
        with assms(1) ne same show ?thesis by (simp add: m)
      next
        case more
        let ?new = "\<lparr> t_symbol = symbol, t_order_id = i, t_side = ''BUY'',
                       t_price = current_price, t_amount = q, t_strategy = ''DCA'',
                       t_status = ''OPEN'' \<rparr>"
        have le: "avg_price (?T @ [?new]) \<le> avg_price ?T"
          by (rule avg_price_append_le) (simp_all add: below more(1))
        have "inv (state_of ?r)"
        proof (rule inv_append_row [OF assms(1) frame more(2)])
          fix p assume "peak_prices s symbol = Some p"
          with assms(1) ne have "avg_price ?T \<le> p"
            by (simp add: inv_def peaks_ok_def)
          with le show "avg_price (?T @ [?new]) \<le> p" by simp
        qed (simp_all add: assms(3) more(1))
        moreover have "open_trades symbol (ledger (state_of ?r)) \<noteq> []"
          using ne by (simp add: more(2) open_trades_append)
        ultimately show ?thesis by (simp add: m)
      qed
    next
      case ttp
      let ?s1 = "update_peak symbol current_price ?T s"
      have pos: "0 < avg_price ?T"
        using Inr avg_price_nonneg [OF rows]
        by (auto simp: profit_pct_def py_div_def split: if_splits)
      have above: "avg_price ?T < current_price"
        using activation_above_avg [OF pos Inr] cfg(2) ttp(2) by simp
      from inv_update_peak [OF assms(1) above assms(3)]
      obtain p where inv1: "inv ?s1" and p: "peak_prices ?s1 symbol = Some p"
        and ge: "current_price \<le> p"
        by blast
      have l1: "ledger ?s1 = ledger s"
        by (simp add: update_peak_fields)
      have pnz: "p \<noteq> 0"
        using ge assms(3) by simp
      let ?r = "execute_trade client symbol ''SELL'' current_price ''TTP''
                  (Some (total_amount ?T)) (log_event (TrailingTriggered symbol) ''info'' ?s1)"
      have m: "?m = (if ttp_trail_pct s \<le> (p - current_price) / p then ?r else Return ?s1)"
        using ne Inr ttp pnz by (simp add: manage_open_positions_def Let_def p py_div_def)
      show ?thesis
      proof (cases "ttp_trail_pct s \<le> (p - current_price) / p")
        case False
        with m inv1 ne l1 show ?thesis by simp
      next
        case True
        with m have mr: "?m = ?r" by simp
        have frame: "trade_amount_usdt (state_of ?r) = trade_amount_usdt ?s1"
          "dca_drop_pct (state_of ?r) = dca_drop_pct ?s1"
          "ttp_activation_pct (state_of ?r) = ttp_activation_pct ?s1"
          "ttp_trail_pct (state_of ?r) = ttp_trail_pct ?s1"
          "peak_prices (state_of ?r) = peak_prices ?s1"
          by (simp_all add: execute_trade_frame execute_trade_peak_prices log_event_fields)
        from execute_sell_effect [of client symbol current_price "''TTP''"
            "Some (total_amount ?T)" "log_event (TrailingTriggered symbol) ''info'' ?s1"]
        consider (same) "ledger (state_of ?r) = ledger ?s1"
          | (closed) "ledger (state_of ?r) = close_open symbol (ledger ?s1)"
          by (auto simp: log_event_fields)
        then have "inv (state_of ?r)"
        proof cases
          case same
          then have "inv (state_of ?r) = inv ?s1"
            using frame by (intro inv_cong) simp_all
          with inv1 show ?thesis by simp
        next
          case closed
          show ?thesis
            by (rule inv_close_open [OF inv1 frame closed])
        qed
        moreover have "peak_prices (state_of ?r) symbol = Some p"
          by (simp add: frame p)
        ultimately show ?thesis
          using ge by (simp add: mr)
      qed
    next
      case idle
      then have "state_of ?m = s"
        using ne Inr by (simp add: manage_open_positions_def)
      with assms(1) ne show ?thesis by simp
    qed
  qed
qed

lemma entry_inv:
  assumes "inv s" and "sane_exchange client" and "0 < current_price"
    and "open_trades symbol (ledger s) = []"
    and "\<And>p. peak_prices s symbol = Some p \<Longrightarrow> current_price \<le> p"
  shows "inv (state_of (execute_trade client symbol ''BUY'' current_price ''Strategy_Auto''
                          None s))"
    (is "inv (state_of ?r)")
proof -
  have cfg: "0 < trade_amount_usdt s"
    using assms(1) by (simp add: inv_def cfg_ok_def)
  have frame: "trade_amount_usdt (state_of ?r) = trade_amount_usdt s"
    "dca_drop_pct (state_of ?r) = dca_drop_pct s"
    "ttp_activation_pct (state_of ?r) = ttp_activation_pct s"
    "ttp_trail_pct (state_of ?r) = ttp_trail_pct s"
    "peak_prices (state_of ?r) = peak_prices s"
    by (simp_all add: execute_trade_frame execute_trade_peak_prices)
  from execute_buy_effect [OF assms(2) cfg assms(3), of symbol "''Strategy_Auto''"]
  consider (same) "ledger (state_of ?r) = ledger s"
    | (more) i q where "0 \<le> q"
        "ledger (state_of ?r) = ledger s @
           [\<lparr> t_symbol = symbol, t_order_id = i, t_side = ''BUY'', t_price = current_price,
              t_amount = q, t_strategy = ''Strategy_Auto'', t_status = ''OPEN'' \<rparr>]"
    by auto
  then show ?thesis
  proof cases
    case same
    then have "inv (state_of ?r) = inv s"
      using frame by (intro inv_cong) simp_all
    with assms(1) show ?thesis by simp
  next
    case more
    let ?new = "\<lparr> t_symbol = symbol, t_order_id = i, t_side = ''BUY'',
                   t_price = current_price, t_amount = q, t_strategy = ''Strategy_Auto'',
                   t_status = ''OPEN'' \<rparr>"
    have single: "avg_price [?new] \<le> current_price"
      using avg_price_single [of ?new] assms(3) by simp
    show ?thesis
    proof (rule inv_append_row [OF assms(1) frame more(2)])
      fix p assume "peak_prices s symbol = Some p"
      then have "current_price \<le> p" by (rule assms(5))
      with single show "avg_price (open_trades symbol (ledger s) @ [?new]) \<le> p"
        by (simp add: assms(4))
    qed (simp_all add: assms(3) more(1))
  qed
qed

lemma process_symbol_inv:
  assumes "inv s" and "sane_input (Tick client candles symbol)"
  shows "inv (process_symbol client candles symbol s)"
proof (cases candles)
  case (Inl e)
  with assms(1) show ?thesis
    by (simp add: process_symbol_def inv_log_event)
next
  case (Inr df)
  with assms(2) have sane: "sane_exchange client" and pos: "0 < close df"
    by simp_all
  obtain regime active_strategy where sel: "strategy_4_auto_ai df = (regime, active_strategy)"
    by (cases "strategy_4_auto_ai df")
  let ?s0 = "log_event (MarketRegime regime (strategy_fn_name active_strategy)) ''info'' s"
  let ?m = "manage_open_positions client symbol (close df) ?s0"
  have inv0: "inv ?s0"
    using assms(1) by (simp add: inv_log_event)
  note mi = manage_open_positions_inv [OF inv0 sane pos, of symbol]
  show ?thesis
  proof (cases ?m)
    case (Raise e s1)
    with mi have "inv s1" by simp
    then show ?thesis
      using Inr sel Raise by (simp add: process_symbol_def inv_log_event)
  next
    case (Return s1)
    with mi have inv1: "inv s1"
      and post: "open_trades symbol (ledger s1) = [] \<Longrightarrow> peak_prices s1 symbol = Some p \<Longrightarrow>
                   close df \<le> p" for p
      by simp_all
    let ?r = "execute_trade client symbol ''BUY'' (close df) ''Strategy_Auto'' None s1"
    have entry: "inv (state_of ?r)" if "open_trades symbol (ledger s1) = []"
      using entry_inv [OF inv1 sane pos that] post [OF that] by blast
    show ?thesis
    proof (cases "open_trades symbol (ledger s1) = [] \<and> run_strategy active_strategy df = ''BUY''")
      case False
      then show ?thesis
        using Inr sel Return inv1
        by (auto simp: process_symbol_def check_open_position_def)
    next
      case True
      then have "process_symbol client candles symbol s =
          (case ?r of Raise e s2 \<Rightarrow> log_event (ProcessingError symbol e) ''error'' s2
           | Return s2 \<Rightarrow> s2)"
        using Inr sel Return by (simp add: process_symbol_def check_open_position_def)
      with entry True show ?thesis
        by (cases ?r) (simp_all add: inv_log_event)
    qed
  qed
qed

lemma step_inv: "inv s \<Longrightarrow> sane_input i \<Longrightarrow> inv (step s i)"
proof (cases i)
  case (Tick client candles symbol)
  then show "inv s \<Longrightarrow> sane_input i \<Longrightarrow> inv (step s i)"
    using process_symbol_inv by simp
next
  case (UpdateTradeAmount a)
  then show "inv s \<Longrightarrow> sane_input i \<Longrightarrow> inv (step s i)"
    by (simp add: set_trade_amount_def inv_def cfg_ok_def peaks_ok_def)
qed

lemma run_inv: "inv s \<Longrightarrow> list_all sane_input inputs \<Longrightarrow> inv (run inputs s)"
  unfolding run_def
  by (induction inputs arbitrary: s) (simp_all add: step_inv)

lemma inv_init: "rows_ok rows \<Longrightarrow> inv (init rows)"
  by (simp add: inv_def cfg_ok_def peaks_ok_def init_def)

subsection \<open>Clearing, bound and monotonicity of the peak\<close>

lemma manage_open_positions_peak:
  "(open_trades symbol (ledger s) = [] \<and>
      peak_prices (state_of (manage_open_positions client symbol current_price s)) =
        (peak_prices s)(symbol := None))
   \<or> (open_trades symbol (ledger s) \<noteq> [] \<and>
      peak_prices (state_of (manage_open_positions client symbol current_price s)) =
        peak_prices s)
   \<or> (open_trades symbol (ledger s) \<noteq> [] \<and>
      peak_prices (state_of (manage_open_positions client symbol current_price s)) =
        (peak_prices s)(symbol \<mapsto> current_price) \<and>
      (\<forall>p. peak_prices s symbol = Some p \<longrightarrow> p < current_price))"
  unfolding manage_open_positions_def Let_def
  by (auto simp: execute_trade_peak_prices log_event_fields update_peak_def Let_def
      split: sum.splits option.splits)

lemma process_symbol_peak:
  "peak_prices (process_symbol client (Inl e) symbol s) = peak_prices s"
  "peak_prices (process_symbol client (Inr df) symbol s) =
     peak_prices (state_of (manage_open_positions client symbol (close df)
       (log_event (MarketRegime (fst (strategy_4_auto_ai df))
          (strategy_fn_name (snd (strategy_4_auto_ai df)))) ''info'' s)))"
proof -
  show "peak_prices (process_symbol client (Inl e) symbol s) = peak_prices s"
    by (simp add: process_symbol_def log_event_fields)
  let ?r = "\<lambda>s1. execute_trade client symbol ''BUY'' (close df) ''Strategy_Auto'' None s1"
  have entry: "peak_prices (case ?r s1 of
                   Raise e s2 \<Rightarrow> log_event (ProcessingError symbol e) ''error'' s2
                 | Return s2 \<Rightarrow> s2) = peak_prices s1" for s1
    using execute_trade_peak_prices [of client symbol "''BUY''" "close df" "''Strategy_Auto''"
        None s1]
    by (cases "?r s1") (simp_all add: log_event_fields)
  show "peak_prices (process_symbol client (Inr df) symbol s) =
     peak_prices (state_of (manage_open_positions client symbol (close df)
       (log_event (MarketRegime (fst (strategy_4_auto_ai df))
          (strategy_fn_name (snd (strategy_4_auto_ai df)))) ''info'' s)))"
    by (simp add: process_symbol_def Let_def case_prod_beta entry log_event_fields
        split: outcome.splits)
qed

text \<open>
  C9, as the code has it.
  \<^item> The Position Manager clears the peak of a symbol when it finds no OPEN row of it,
    and so does the iteration of the loop that runs it.
  \<^item> In every state that a run of the loop reaches from a fresh engine on a table of rows
    with positive prices and non-negative amounts, and in the state the Position Manager
    leaves when it runs from such a state, a stored peak of a symbol with OPEN rows is at
    least the average entry price of these rows.
  \<^item> While the symbol has OPEN rows, an iteration of the loop for it leaves a stored peak
    stored and does not lower it; an iteration for another symbol does not touch it.
\<close>

theorem peak_price_state:
  "(open_trades symbol (ledger s) = [] \<longrightarrow>
      peak_prices (state_of (manage_open_positions client symbol current_price s)) symbol = None
      \<and> peak_prices (process_symbol client (Inr df) symbol s) symbol = None)
   \<and> (rows_ok rows \<and> list_all sane_input inputs
        \<and> peak_prices (run inputs (init rows)) symbol = Some p
        \<and> open_trades symbol (ledger (run inputs (init rows))) \<noteq> []
      \<longrightarrow> avg_price (open_trades symbol (ledger (run inputs (init rows)))) \<le> p)
   \<and> (rows_ok rows \<and> list_all sane_input inputs \<and> sane_exchange client \<and> 0 < current_price
        \<and> peak_prices (state_of (manage_open_positions client other current_price
              (run inputs (init rows)))) symbol = Some p
        \<and> open_trades symbol (ledger (state_of (manage_open_positions client other
              current_price (run inputs (init rows))))) \<noteq> []
      \<longrightarrow> avg_price (open_trades symbol (ledger (state_of (manage_open_positions client other
              current_price (run inputs (init rows)))))) \<le> p)
   \<and> (open_trades symbol (ledger s) \<noteq> [] \<and> peak_prices s symbol = Some p \<longrightarrow>
        (\<exists>p'. peak_prices (state_of (manage_open_positions client symbol current_price s))
                symbol = Some p' \<and> p \<le> p')
        \<and> (\<exists>p'. peak_prices (process_symbol client candles symbol s) symbol = Some p'
                \<and> p \<le> p'))
   \<and> (other \<noteq> symbol \<longrightarrow>
        peak_prices (process_symbol client candles other s) symbol = peak_prices s symbol)"
proof -
  have clear_m: "peak_prices (state_of (manage_open_positions client symbol cp s0)) symbol = None"
    if "open_trades symbol (ledger s0) = []" for cp s0
    using manage_open_positions_peak [of symbol s0 client cp] that by auto
  have clear: "open_trades symbol (ledger s) = [] \<longrightarrow>
      peak_prices (state_of (manage_open_positions client symbol current_price s)) symbol = None
      \<and> peak_prices (process_symbol client (Inr df) symbol s) symbol = None"
    by (simp add: clear_m process_symbol_peak log_event_fields)
  have bound: "avg_price (open_trades symbol (ledger (run inputs (init rows)))) \<le> p"
    if "rows_ok rows" "list_all sane_input inputs"
      "peak_prices (run inputs (init rows)) symbol = Some p"
      "open_trades symbol (ledger (run inputs (init rows))) \<noteq> []"
    using run_inv [OF inv_init [OF that(1)] that(2)] that(3,4)
    by (simp add: inv_def peaks_ok_def)
  have mid: "avg_price (open_trades symbol (ledger (state_of (manage_open_positions client other
              current_price (run inputs (init rows)))))) \<le> p"
    if "rows_ok rows" "list_all sane_input inputs" "sane_exchange client" "0 < current_price"
      "peak_prices (state_of (manage_open_positions client other current_price
              (run inputs (init rows)))) symbol = Some p"
      "open_trades symbol (ledger (state_of (manage_open_positions client other
              current_price (run inputs (init rows))))) \<noteq> []"
    using manage_open_positions_inv [OF run_inv [OF inv_init [OF that(1)] that(2)] that(3,4),
        of other] that(5,6)
    by (simp add: inv_def peaks_ok_def)
  have mono_m: "\<exists>p'. peak_prices (state_of (manage_open_positions client symbol cp s0))
                symbol = Some p' \<and> p \<le> p'"
    if "open_trades symbol (ledger s0) \<noteq> []" "peak_prices s0 symbol = Some p" for cp s0
    using manage_open_positions_peak [of symbol s0 client cp] that by auto
  have mono: "(\<exists>p'. peak_prices (state_of (manage_open_positions client symbol current_price s))
                symbol = Some p' \<and> p \<le> p')
        \<and> (\<exists>p'. peak_prices (process_symbol client candles symbol s) symbol = Some p'
                \<and> p \<le> p')"
    if "open_trades symbol (ledger s) \<noteq> []" "peak_prices s symbol = Some p"
  proof (cases candles)
    case (Inl e)
    with that mono_m [OF that] show ?thesis
      by (simp add: process_symbol_peak)
  next
    case (Inr df')
    have "\<exists>p'. peak_prices (state_of (manage_open_positions client symbol (close df') s0))
                symbol = Some p' \<and> p \<le> p'"
      if "ledger s0 = ledger s" "peak_prices s0 = peak_prices s" for s0
      by (rule mono_m) (simp_all add: that \<open>open_trades symbol (ledger s) \<noteq> []\<close>
          \<open>peak_prices s symbol = Some p\<close>)
    with Inr mono_m [OF that] show ?thesis
      by (simp add: process_symbol_peak log_event_fields)
  qed
  have untouched_m: "peak_prices (state_of (manage_open_positions client other cp s0)) symbol =
      peak_prices s0 symbol" if "other \<noteq> symbol" for cp s0
    using manage_open_positions_peak [of other s0 client cp] that by auto
  have untouched: "peak_prices (process_symbol client candles other s) symbol =
      peak_prices s symbol" if "other \<noteq> symbol"
    using that
    by (cases candles) (simp_all add: process_symbol_peak untouched_m log_event_fields)
  from clear bound mid mono untouched show ?thesis
    by blast
qed

lemma sane_exchange_fills: "sane_exchange fills"
  by (auto simp: sane_exchange_def fills_def)

theorem peak_price_state_witness:
  "rows_ok [open_lot ''BTCUSDT'' 100 1]
   \<and> list_all sane_input [Tick fills (Inr (calm 104)) ''BTCUSDT'']
   \<and> peak_prices (run [Tick fills (Inr (calm 104)) ''BTCUSDT''] (init [open_lot ''BTCUSDT'' 100 1]))
        ''BTCUSDT'' = Some 104
   \<and> open_trades ''BTCUSDT'' (ledger (run [Tick fills (Inr (calm 104)) ''BTCUSDT'']
        (init [open_lot ''BTCUSDT'' 100 1]))) = [open_lot ''BTCUSDT'' 100 1]
   \<and> avg_price (open_trades ''BTCUSDT'' (ledger (run [Tick fills (Inr (calm 104)) ''BTCUSDT'']
        (init [open_lot ''BTCUSDT'' 100 1])))) \<le> 104
   \<and> peak_prices (state_of (manage_open_positions fills ''BTCUSDT'' 106
        (run [Tick fills (Inr (calm 104)) ''BTCUSDT''] (init [open_lot ''BTCUSDT'' 100 1]))))
        ''BTCUSDT'' = Some 106
   \<and> peak_prices (process_symbol fills (Inr (calm 2000)) ''ETHUSDT''
        (run [Tick fills (Inr (calm 104)) ''BTCUSDT''] (init [open_lot ''BTCUSDT'' 100 1])))
        ''BTCUSDT'' = Some 104
   \<and> open_trades ''BTCUSDT'' (ledger ((init [])\<lparr>peak_prices := [''BTCUSDT'' \<mapsto> 106]\<rparr>)) = []
   \<and> peak_prices (state_of (manage_open_positions fills ''BTCUSDT'' 104
        ((init [])\<lparr>peak_prices := [''BTCUSDT'' \<mapsto> 106]\<rparr>))) ''BTCUSDT'' = None"
proof -
  let ?rows = "[open_lot ''BTCUSDT'' 100 1]"
  let ?inputs = "[Tick fills (Inr (calm 104)) ''BTCUSDT'']"
  let ?s1 = "run ?inputs (init ?rows)"
  let ?s3 = "(init [])\<lparr>peak_prices := [''BTCUSDT'' \<mapsto> 106]\<rparr>"
  have a: "rows_ok ?rows"
    by (simp add: rows_ok_def open_lot_def)
  have b: "list_all sane_input ?inputs"
    by (simp add: sane_exchange_fills calm_def)
  have s1: "?s1 = (init ?rows)
      \<lparr> peak_prices := [''BTCUSDT'' \<mapsto> 104],
        events := [\<lparr>e_type = ''info'',
                     e_msg = MarketRegime ''SIDEWAYS'' ''strategy_2_rsi_scalping''\<rparr>,
                   \<lparr>e_type = ''info'', e_msg = NewTrailingPeak ''BTCUSDT'' 104\<rparr>] \<rparr>"
    by (simp add: run_def engine_defs loop_defs)
  have c: "peak_prices ?s1 ''BTCUSDT'' = Some 104"
    by (simp add: s1)
  have d: "open_trades ''BTCUSDT'' (ledger ?s1) = ?rows"
    by (simp add: s1) (simp add: engine_defs)
  then have d': "open_trades ''BTCUSDT'' (ledger ?s1) \<noteq> []"
    by simp
  note t = peak_price_state [where symbol = "''BTCUSDT''" and s = ?s1 and rows = ?rows
      and inputs = ?inputs and p = 104 and client = fills and current_price = 106
      and other = "''ETHUSDT''" and candles = "Inr (calm 2000)"]
  from t a b c d' have e: "avg_price (open_trades ''BTCUSDT'' (ledger ?s1)) \<le> 104"
    by blast
  from t c d' obtain p' where
    "peak_prices (state_of (manage_open_positions fills ''BTCUSDT'' 106 ?s1)) ''BTCUSDT''
       = Some p'"
    by blast
  moreover have "peak_prices (state_of (manage_open_positions fills ''BTCUSDT'' 106 ?s1))
      ''BTCUSDT'' = Some 106"
    by (simp add: s1) (simp add: engine_defs)
  ultimately have f: "peak_prices (state_of (manage_open_positions fills ''BTCUSDT'' 106 ?s1))
      ''BTCUSDT'' = Some 106"
    by simp
  from t have "peak_prices (process_symbol fills (Inr (calm 2000)) ''ETHUSDT'' ?s1) ''BTCUSDT''
      = peak_prices ?s1 ''BTCUSDT''"
    by simp
  with c have g: "peak_prices (process_symbol fills (Inr (calm 2000)) ''ETHUSDT'' ?s1)
      ''BTCUSDT'' = Some 104"
    by simp
  have h: "open_trades ''BTCUSDT'' (ledger ?s3) = []"
    by (simp add: engine_defs)
  from peak_price_state [where symbol = "''BTCUSDT''" and s = ?s3 and client = fills
      and current_price = 104] h
  have i: "peak_prices (state_of (manage_open_positions fills ''BTCUSDT'' 104 ?s3))
      ''BTCUSDT'' = None"
    by blast
  show ?thesis
    by (intro conjI a b c d e f g h i)
qed

text \<open>
  The peak is not cleared whenever the symbol has no OPEN row. One lot bought at 100 and
  the cycles at 104, 106 and 104.8: the last one sells, the table has no OPEN row of the
  symbol, and the peak 106 is still stored at the end of the cycle.
\<close>

theorem peak_kept_after_sell_counterexample:
  "open_trades ''BTCUSDT''
     (ledger (run [Tick fills (Inr (calm 104)) ''BTCUSDT'', Tick fills (Inr (calm 106)) ''BTCUSDT'',
                   Tick fills (Inr (calm (524 / 5))) ''BTCUSDT'']
        (init [open_lot ''BTCUSDT'' 100 1]))) = []
   \<and> peak_prices (run [Tick fills (Inr (calm 104)) ''BTCUSDT'',
                       Tick fills (Inr (calm 106)) ''BTCUSDT'',
                       Tick fills (Inr (calm (524 / 5))) ''BTCUSDT'']
        (init [open_lot ''BTCUSDT'' 100 1])) ''BTCUSDT'' = Some 106"
  by (simp add: run_def engine_defs loop_defs)

section \<open>The quantizer\<close>

subsection \<open>Python's decimal numbers\<close>

text \<open>
  \<^verbatim>\<open>format_number\<close> of \<^verbatim>\<open>src/binance_api.py\<close> computes with \<^verbatim>\<open>decimal.Decimal\<close> in the default
  context: precision 28, rounding half even, division by zero and invalid operations
  trapped. A finite \<^verbatim>\<open>Decimal\<close> is a sign, a coefficient and an exponent, and the operations
  below are those of the module \<^verbatim>\<open>decimal\<close> on finite numbers (the bounds of the exponent,
  999999 either way, are never near). The float \<^verbatim>\<open>value\<close> enters as \<^verbatim>\<open>Decimal(str(value))\<close>:
  the argument of the model is that decimal, for a finite float. A step size enters as
  \<^verbatim>\<open>Decimal(step_size_str)\<close>: the filters of the model hold these decimals, for the fields
  whose text is a numeral; a field that is absent or empty is absent from the model.
\<close>

record decimal =
  d_sign :: bool
  d_int :: nat
  d_exp :: int

datatype decimal_exn = DivisionByZero | InvalidOperation

definition prec :: nat where
  "prec = 28"

definition dec_val :: "decimal \<Rightarrow> real" where
  "dec_val d = (if d_sign d then - 1 else 1) * real (d_int d) * 10 powi d_exp d"

text \<open>\<^verbatim>\<open>str\<close> of a non-negative integer.\<close>

definition digit_char :: "nat \<Rightarrow> char" where
  "digit_char n = ''0123456789'' ! n"

fun digits :: "nat \<Rightarrow> string" where
  "digits n = (if n < 10 then [digit_char n] else digits (n div 10) @ [digit_char (n mod 10)])"

declare digits.simps [simp del]

text \<open>
  \<^verbatim>\<open>Decimal._fix\<close>: a coefficient of more than \<^verbatim>\<open>prec\<close> digits is rounded to \<^verbatim>\<open>prec\<close> digits,
  half to even; when the rounding carries into one more digit, the last digit is dropped.
\<close>

definition dec_fix :: "decimal \<Rightarrow> decimal" where
  "dec_fix d =
     (if d_int d < 10 ^ prec then d
      else
        let k = length (digits (d_int d)) - prec;
            q = d_int d div 10 ^ k;
            r = d_int d mod 10 ^ k;
            coeff = (if 2 * r > 10 ^ k \<or> (2 * r = 10 ^ k \<and> odd q) then q + 1 else q)
        in if coeff < 10 ^ prec then \<lparr> d_sign = d_sign d, d_int = coeff, d_exp = d_exp d + int k \<rparr>
           else \<lparr> d_sign = d_sign d, d_int = coeff div 10, d_exp = d_exp d + int k + 1 \<rparr>)"

text \<open>\<^verbatim>\<open>Decimal.normalize\<close>: the trailing zeros of the coefficient go into the exponent.\<close>

function strip_zeros :: "nat \<Rightarrow> int \<Rightarrow> nat \<times> int" where
  "strip_zeros c e = (if c \<noteq> 0 \<and> c mod 10 = 0 then strip_zeros (c div 10) (e + 1) else (c, e))"
  by pat_completeness auto
termination
  by (relation "measure fst") auto

declare strip_zeros.simps [simp del]

definition dec_normalize :: "decimal \<Rightarrow> decimal" where
  "dec_normalize d =
     (let dup = dec_fix d in
      if d_int dup = 0 then \<lparr> d_sign = d_sign dup, d_int = 0, d_exp = 0 \<rparr>
      else case strip_zeros (d_int dup) (d_exp dup) of
             (c, e) \<Rightarrow> \<lparr> d_sign = d_sign dup, d_int = c, d_exp = e \<rparr>)"

text \<open>
  \<^verbatim>\<open>Decimal.__floordiv__\<close>: the integer part of the quotient, truncated towards zero, with
  exponent 0. A zero divisor raises, and so does a quotient of more than \<^verbatim>\<open>prec\<close> digits.
\<close>

definition dec_floordiv :: "decimal \<Rightarrow> decimal \<Rightarrow> decimal_exn + decimal" where
  "dec_floordiv a b =
     (if d_int b = 0 then
        (if d_int a \<noteq> 0 then Inl DivisionByZero else Inl InvalidOperation)
      else
        let op1 = (if d_exp a \<ge> d_exp b then d_int a * 10 ^ nat (d_exp a - d_exp b)
                   else d_int a);
            op2 = (if d_exp a \<ge> d_exp b then d_int b
                   else d_int b * 10 ^ nat (d_exp b - d_exp a));
            q = op1 div op2
        in if q < 10 ^ prec then
             Inr \<lparr> d_sign = (d_sign a \<noteq> d_sign b), d_int = q, d_exp = 0 \<rparr>
           else Inl InvalidOperation)"

text \<open>\<^verbatim>\<open>Decimal.__mul__\<close>: the exact product, then \<^verbatim>\<open>_fix\<close>.\<close>

definition dec_mul :: "decimal \<Rightarrow> decimal \<Rightarrow> decimal" where
  "dec_mul a b =
     dec_fix \<lparr> d_sign = (d_sign a \<noteq> d_sign b), d_int = d_int a * d_int b,
               d_exp = d_exp a + d_exp b \<rparr>"

text \<open>
  \<^verbatim>\<open>Decimal.__format__\<close> with the specifier \<^verbatim>\<open>f\<close> and no precision: the digits of the
  coefficient with the decimal point placed by the exponent, never an exponent part.
\<close>

definition format_f :: "decimal \<Rightarrow> string" where
  "format_f d =
     (let d0 = (if d_int d = 0 \<and> d_exp d > 0 then d\<lparr>d_exp := 0\<rparr> else d);
          ds = digits (d_int d0);
          dotplace = d_exp d0 + int (length ds);
          intpart = (if dotplace < 0 then ''0''
                     else if dotplace > int (length ds) then
                       ds @ replicate (nat (dotplace - int (length ds))) CHR ''0''
                     else if take (nat dotplace) ds = [] then ''0''
                     else take (nat dotplace) ds);
          fracpart = (if dotplace < 0 then replicate (nat (- dotplace)) CHR ''0'' @ ds
                      else if dotplace > int (length ds) then []
                      else drop (nat dotplace) ds)
      in (if d_sign d0 then ''-'' else []) @ intpart
         @ (if fracpart = [] then [] else ''.'' @ fracpart))"

subsection \<open>format\_number\<close>

text \<open>
  \<^verbatim>\<open>self.symbol_filters\<close>: for a symbol, for a filter type, the fields of the filter. Lines
  67 to 75 find the step size: none when the symbol is unknown, when the filter type is
  missing, or when the filter has neither \<^verbatim>\<open>stepSize\<close> nor \<^verbatim>\<open>tickSize\<close>.
\<close>

type_synonym symbol_filters = "string \<rightharpoonup> (string \<rightharpoonup> (string \<rightharpoonup> decimal))"

definition step_size_str :: "symbol_filters \<Rightarrow> string \<Rightarrow> string \<Rightarrow> decimal option" where
  "step_size_str symbol_filters symbol filter_type =
     (case symbol_filters symbol of
        None \<Rightarrow> None
      | Some by_type \<Rightarrow>
          let filters = (case by_type filter_type of Some f \<Rightarrow> f | None \<Rightarrow> Map.empty)
          in case filters ''stepSize'' of
               Some d \<Rightarrow> Some d
             | None \<Rightarrow> filters ''tickSize'')"

definition format_number ::
  "symbol_filters \<Rightarrow> string \<Rightarrow> decimal \<Rightarrow> string \<Rightarrow> decimal_exn + string" where
  "format_number symbol_filters symbol val filter_type =
     (case step_size_str symbol_filters symbol filter_type of
        None \<Rightarrow> Inr (format_f val)
      | Some step_size \<Rightarrow>
          let val_dec = val;
              step_dec = dec_normalize step_size
          in case dec_floordiv val_dec step_dec of
               Inl e \<Rightarrow> Inl e
             | Inr q \<Rightarrow>
                 let quantized_val = dec_mul q step_dec
                 in Inr (format_f quantized_val))"

text \<open>Filters of one symbol with the lot step 0.00100000 and the price tick 0.01000000.\<close>

definition sample_filters :: symbol_filters where
  "sample_filters =
     [''BTCUSDT'' \<mapsto>
        [''LOT_SIZE'' \<mapsto> [''stepSize'' \<mapsto> \<lparr> d_sign = False, d_int = 100000, d_exp = - 8 \<rparr>],
         ''PRICE_FILTER'' \<mapsto> [''tickSize'' \<mapsto> \<lparr> d_sign = False, d_int = 1000000, d_exp = - 8 \<rparr>]]]"

text \<open>Unfolding a run of zeros whose length is a numeral, for evaluation.\<close>

lemma zeros_numeral:
  "replicate (numeral k) CHR ''0'' = CHR ''0'' # replicate (pred_numeral k) CHR ''0''"
  by (simp add: numeral_eq_Suc)

lemmas dec_defs = zeros_numeral
  format_number_def step_size_str_def sample_filters_def dec_normalize_def dec_fix_def
  prec_def strip_zeros.simps dec_floordiv_def dec_mul_def format_f_def digits.simps
  digit_char_def Let_def

subsection \<open>Values of the decimal operations\<close>

lemma strip_zeros_val:
  "strip_zeros c e = (c', e') \<Longrightarrow> real c' * 10 powi e' = real c * 10 powi e"
proof (induction c e rule: strip_zeros.induct)
  case (1 c e)
  show ?case
  proof (cases "c \<noteq> 0 \<and> c mod 10 = 0")
    case True
    then have rec: "strip_zeros (c div 10) (e + 1) = (c', e')"
      using "1.prems" by (simp add: strip_zeros.simps [of c e])
    have c: "real c = real (c div 10) * 10"
      using True by (metis mod_0_imp_dvd dvd_div_mult_self of_nat_mult of_nat_numeral)
    have "real c' * 10 powi e' = real (c div 10) * 10 powi (e + 1)"
      using "1.IH" [OF True rec] .
    also have "\<dots> = real (c div 10) * 10 * 10 powi e"
      by (simp add: power_int_add_1)
    finally show ?thesis
      by (simp add: c)
  next
    case False
    then show ?thesis
      using "1.prems" by (simp add: strip_zeros.simps [of c e] split: if_splits)
  qed
qed

lemma strip_zeros_nonzero:
  "strip_zeros c e = (c', e') \<Longrightarrow> c \<noteq> 0 \<Longrightarrow> c' \<noteq> 0"
proof (induction c e rule: strip_zeros.induct)
  case (1 c e)
  show ?case
  proof (cases "c \<noteq> 0 \<and> c mod 10 = 0")
    case True
    then have rec: "strip_zeros (c div 10) (e + 1) = (c', e')"
      using "1.prems" by (simp add: strip_zeros.simps [of c e])
    have "c div 10 \<noteq> 0"
      using True by (metis div_0 dvd_div_eq_0_iff mod_0_imp_dvd)
    with "1.IH" [OF True rec] show ?thesis .
  next
    case False
    then show ?thesis
      using "1.prems" by (simp add: strip_zeros.simps [of c e] split: if_splits)
  qed
qed

lemma dec_normalize_props:
  assumes "d_int d < 10 ^ prec" and "d_int d \<noteq> 0"
  shows "d_sign (dec_normalize d) = d_sign d"
    and "d_int (dec_normalize d) \<noteq> 0"
    and "dec_val (dec_normalize d) = dec_val d"
proof -
  obtain c e where s: "strip_zeros (d_int d) (d_exp d) = (c, e)"
    by (cases "strip_zeros (d_int d) (d_exp d)")
  have n: "dec_normalize d = \<lparr> d_sign = d_sign d, d_int = c, d_exp = e \<rparr>"
    using assms by (simp add: dec_normalize_def dec_fix_def s)
  show "d_sign (dec_normalize d) = d_sign d"
    by (simp add: n)
  show "d_int (dec_normalize d) \<noteq> 0"
    using strip_zeros_nonzero [OF s assms(2)] by (simp add: n)
  show "dec_val (dec_normalize d) = dec_val d"
    using strip_zeros_val [OF s] by (simp add: n dec_val_def mult.assoc)
qed

lemma dec_ratio:
  assumes "\<not> d_sign a" and "\<not> d_sign b" and "d_int b \<noteq> 0"
  shows "dec_val a / dec_val b =
           real (if d_exp a \<ge> d_exp b then d_int a * 10 ^ nat (d_exp a - d_exp b) else d_int a)
           / real (if d_exp a \<ge> d_exp b then d_int b
                   else d_int b * 10 ^ nat (d_exp b - d_exp a))"
proof (cases "d_exp a \<ge> d_exp b")
  case True
  then have "d_exp a = d_exp b + int (nat (d_exp a - d_exp b))"
    by simp
  then have "(10::real) powi d_exp a = 10 powi d_exp b * 10 ^ nat (d_exp a - d_exp b)"
    by (metis power_int_add power_int_of_nat zero_neq_numeral)
  then show ?thesis
    using assms True by (simp add: dec_val_def)
next
  case False
  then have "d_exp b = d_exp a + int (nat (d_exp b - d_exp a))"
    by simp
  then have "(10::real) powi d_exp b = 10 powi d_exp a * 10 ^ nat (d_exp b - d_exp a)"
    by (metis power_int_add power_int_of_nat zero_neq_numeral)
  then show ?thesis
    using assms False by (simp add: dec_val_def)
qed

lemma dec_floordiv_nonneg:
  assumes "\<not> d_sign a" and "\<not> d_sign b" and "d_int b \<noteq> 0"
  shows "dec_floordiv a b =
           (if \<lfloor>dec_val a / dec_val b\<rfloor> < 10 ^ prec then
              Inr \<lparr> d_sign = False, d_int = nat \<lfloor>dec_val a / dec_val b\<rfloor>, d_exp = 0 \<rparr>
            else Inl InvalidOperation)"
proof -
  let ?op1 = "if d_exp a \<ge> d_exp b then d_int a * 10 ^ nat (d_exp a - d_exp b) else d_int a"
  let ?op2 = "if d_exp a \<ge> d_exp b then d_int b else d_int b * 10 ^ nat (d_exp b - d_exp a)"
  have "\<lfloor>dec_val a / dec_val b\<rfloor> = \<lfloor>real ?op1 / real ?op2\<rfloor>"
    by (simp only: dec_ratio [OF assms])
  also have "\<dots> = int (?op1 div ?op2)"
    by (rule floor_divide_of_nat_eq)
  finally have fl: "\<lfloor>dec_val a / dec_val b\<rfloor> = int (?op1 div ?op2)" .
  have lt: "(int (?op1 div ?op2) < 10 ^ prec) = (?op1 div ?op2 < 10 ^ prec)"
    by (metis of_nat_less_iff of_nat_numeral of_nat_power)
  show ?thesis
    unfolding fl lt using assms
    by (simp add: dec_floordiv_def Let_def)
qed

lemma dec_mul_exact:
  "d_int a * d_int b < 10 ^ prec \<Longrightarrow>
     dec_mul a b = \<lparr> d_sign = (d_sign a \<noteq> d_sign b), d_int = d_int a * d_int b,
                     d_exp = d_exp a + d_exp b \<rparr>"
  by (simp add: dec_mul_def dec_fix_def)

lemma floor_multiple_le:
  fixes x s :: real
  assumes "0 < s"
  shows "of_int \<lfloor>x / s\<rfloor> * s \<le> x"
proof -
  have "of_int \<lfloor>x / s\<rfloor> \<le> x / s"
    by (rule of_int_floor_le)
  then have "of_int \<lfloor>x / s\<rfloor> * s \<le> x / s * s"
    using assms by (intro mult_right_mono) simp_all
  then show ?thesis
    using assms by simp
qed

subsection \<open>The characters of the output\<close>

lemma digit_char_set: "n < 10 \<Longrightarrow> digit_char n \<in> set ''0123456789''"
  unfolding digit_char_def by (rule nth_mem) simp

lemma digits_set: "set (digits n) \<subseteq> set ''0123456789''"
proof (induction n rule: digits.induct)
  case (1 n)
  show ?case
  proof (cases "n < 10")
    case True
    then show ?thesis
      using digit_char_set [of n] by (simp add: digits.simps [of n])
  next
    case False
    have "n mod 10 < 10" by simp
    then have "digit_char (n mod 10) \<in> set ''0123456789''"
      by (rule digit_char_set)
    with "1.IH" [OF False] False show ?thesis
      by (simp add: digits.simps [of n])
  qed
qed

lemma format_f_chars_in:
  assumes "set (digits (d_int d)) \<subseteq> A" and "set (digits 0) \<subseteq> A"
    and "CHR ''0'' \<in> A" and "CHR ''.'' \<in> A" and "d_sign d \<longrightarrow> CHR ''-'' \<in> A"
  shows "set (format_f d) \<subseteq> A"
proof -
  let ?d0 = "if d_int d = 0 \<and> 0 < d_exp d then d\<lparr>d_exp := 0\<rparr> else d"
  have int0: "d_int ?d0 = d_int d" and sign0: "d_sign ?d0 = d_sign d"
    by simp_all
  have a: "set (take n (digits (d_int ?d0))) \<subseteq> A" for n
    using assms(1) set_take_subset [of n "digits (d_int d)"] unfolding int0 by (rule order_trans [rotated])
  have b: "set (drop n (digits (d_int ?d0))) \<subseteq> A" for n
    using assms(1) set_drop_subset [of n "digits (d_int d)"] unfolding int0 by (rule order_trans [rotated])
  have c: "set (digits (d_int ?d0)) \<subseteq> A"
    using assms(1) by (simp only: int0)
  have r: "set (replicate n CHR ''0'') \<subseteq> A" for n
    using assms(3) by auto
  have s: "set (if d_sign ?d0 then ''-'' else []) \<subseteq> A"
    using assms(5) unfolding sign0 by auto
  show ?thesis
    unfolding format_f_def Let_def set_append
    using a b c r s assms(3,4)
    by (intro Un_least) (simp_all split: if_splits)
qed

lemma format_f_chars: "set (format_f d) \<subseteq> set ''0123456789.-''"
  by (rule format_f_chars_in) (use digits_set in \<open>force+\<close>)

lemma format_f_chars_nonneg: "\<not> d_sign d \<Longrightarrow> set (format_f d) \<subseteq> set ''0123456789.''"
  by (rule format_f_chars_in) (use digits_set in \<open>force+\<close>)

subsection \<open>Rounding down to the step\<close>

lemma dec_floordiv_abs:
  assumes "\<not> d_sign b" and "d_int b \<noteq> 0"
  shows "dec_floordiv a b =
           (if \<lfloor>\<bar>dec_val a\<bar> / dec_val b\<rfloor> < 10 ^ prec then
              Inr \<lparr> d_sign = d_sign a, d_int = nat \<lfloor>\<bar>dec_val a\<bar> / dec_val b\<rfloor>, d_exp = 0 \<rparr>
            else Inl InvalidOperation)"
proof -
  let ?a = "a\<lparr>d_sign := False\<rparr>"
  have abs: "\<bar>dec_val a\<bar> = dec_val ?a"
    by (simp add: dec_val_def abs_mult)
  have flip: "dec_floordiv a b =
      (case dec_floordiv ?a b of Inl e \<Rightarrow> Inl e | Inr q \<Rightarrow> Inr (q\<lparr>d_sign := d_sign a\<rparr>))"
    using assms by (simp add: dec_floordiv_def Let_def)
  have "dec_floordiv ?a b =
           (if \<lfloor>dec_val ?a / dec_val b\<rfloor> < 10 ^ prec then
              Inr \<lparr> d_sign = False, d_int = nat \<lfloor>dec_val ?a / dec_val b\<rfloor>, d_exp = 0 \<rparr>
            else Inl InvalidOperation)"
    by (rule dec_floordiv_nonneg) (simp_all add: assms)
  then show ?thesis
    unfolding flip abs by simp
qed

lemma quantize_known_step:
  assumes "step_size_str symbol_filters symbol filter_type = Some step_size"
    and "\<not> d_sign step_size" and "d_int step_size \<noteq> 0" and "d_int step_size < 10 ^ prec"
    and "\<lfloor>\<bar>dec_val val\<bar> / dec_val step_size\<rfloor> * int (d_int (dec_normalize step_size))
           < 10 ^ prec"
  shows "format_number symbol_filters symbol val filter_type =
           Inr (format_f \<lparr> d_sign = d_sign val,
                  d_int = nat \<lfloor>\<bar>dec_val val\<bar> / dec_val step_size\<rfloor>
                          * d_int (dec_normalize step_size),
                  d_exp = d_exp (dec_normalize step_size) \<rparr>)"
    and "dec_val \<lparr> d_sign = d_sign val,
                  d_int = nat \<lfloor>\<bar>dec_val val\<bar> / dec_val step_size\<rfloor>
                          * d_int (dec_normalize step_size),
                  d_exp = d_exp (dec_normalize step_size) \<rparr> =
           (if d_sign val then - 1 else 1)
           * (of_int \<lfloor>\<bar>dec_val val\<bar> / dec_val step_size\<rfloor> * dec_val step_size)"
proof -
  let ?st = "dec_normalize step_size"
  let ?k = "\<lfloor>\<bar>dec_val val\<bar> / dec_val step_size\<rfloor>"
  note n = dec_normalize_props [OF assms(4) assms(3)]
  have stpos: "0 < dec_val step_size"
    using assms(2,3) by (simp add: dec_val_def)
  have k0: "0 \<le> ?k"
    using stpos by simp
  have c1: "1 \<le> int (d_int ?st)"
    using n(2) by simp
  have "?k * 1 \<le> ?k * int (d_int ?st)"
    using c1 k0 by (rule mult_left_mono)
  with assms(5) have kfit: "?k < 10 ^ prec"
    by simp
  have q: "dec_floordiv val ?st = Inr \<lparr> d_sign = d_sign val, d_int = nat ?k, d_exp = 0 \<rparr>"
    using dec_floordiv_abs [of ?st val] assms(2) n kfit by simp
  have "int (nat ?k * d_int ?st) < 10 ^ prec"
    using assms(5) k0 by simp
  then have prod: "nat ?k * d_int ?st < 10 ^ prec"
    by (metis of_nat_less_iff of_nat_numeral of_nat_power)
  let ?d = "\<lparr> d_sign = d_sign val, d_int = nat ?k * d_int ?st, d_exp = d_exp ?st \<rparr>"
  have m: "dec_mul \<lparr> d_sign = d_sign val, d_int = nat ?k, d_exp = 0 \<rparr> ?st = ?d"
    using dec_mul_exact [of "\<lparr> d_sign = d_sign val, d_int = nat ?k, d_exp = 0 \<rparr>" ?st]
      prod assms(2) n(1)
    by simp
  show "format_number symbol_filters symbol val filter_type = Inr (format_f ?d)"
    by (simp add: format_number_def assms(1) q m Let_def)
  have "dec_val ?d = (if d_sign val then - 1 else 1) * (real (nat ?k) * dec_val ?st)"
    using assms(2) n(1) by (simp add: dec_val_def)
  then show "dec_val ?d = (if d_sign val then - 1 else 1) * (of_int ?k * dec_val step_size)"
    using k0 by (simp add: n(3))
qed

text \<open>
  C6, as the code has it. When no step size is known for the symbol and the filter type,
  the output is the plain notation of the value. When a step size is known, is positive
  and is written with at most 28 digits, and the truncated quotient of the absolute value
  by the step, times the coefficient of the normalized step, is below 10 to the 28 (the
  result fits the precision of the decimal context), then
  \<^item> for a value that is not negative, the output is the plain notation of
    floor(value / step) * step: an exact multiple of the step, at most the value;
  \<^item> for a negative value the quotient is truncated towards zero: the output is the plain
    notation, with a minus sign, of ceiling(value / step) * step, an exact multiple of the
    step between the value and zero.
  Plain notation: digits, at most one point, a minus sign for a negative number, never an
  exponent.
\<close>

theorem quantize_rounds_down:
  "(step_size_str symbol_filters symbol filter_type = None \<longrightarrow>
      format_number symbol_filters symbol val filter_type = Inr (format_f val)
      \<and> set (format_f val) \<subseteq> set ''0123456789.-'')
   \<and> (step_size_str symbol_filters symbol filter_type = Some step_size
        \<and> \<not> d_sign val \<and> \<not> d_sign step_size
        \<and> 0 < d_int step_size \<and> d_int step_size < 10 ^ prec
        \<and> \<lfloor>dec_val val / dec_val step_size\<rfloor> * int (d_int (dec_normalize step_size))
            < 10 ^ prec
      \<longrightarrow> (\<exists>d. format_number symbol_filters symbol val filter_type = Inr (format_f d)
              \<and> dec_val d = of_int \<lfloor>dec_val val / dec_val step_size\<rfloor> * dec_val step_size
              \<and> dec_val d \<le> dec_val val
              \<and> set (format_f d) \<subseteq> set ''0123456789.''))
   \<and> (step_size_str symbol_filters symbol filter_type = Some step_size
        \<and> d_sign val \<and> \<not> d_sign step_size
        \<and> 0 < d_int step_size \<and> d_int step_size < 10 ^ prec
        \<and> \<lfloor>- dec_val val / dec_val step_size\<rfloor> * int (d_int (dec_normalize step_size))
            < 10 ^ prec
      \<longrightarrow> (\<exists>d. format_number symbol_filters symbol val filter_type = Inr (format_f d)
              \<and> dec_val d = of_int \<lceil>dec_val val / dec_val step_size\<rceil> * dec_val step_size
              \<and> dec_val val \<le> dec_val d \<and> dec_val d \<le> 0
              \<and> hd (format_f d) = CHR ''-''
              \<and> set (format_f d) \<subseteq> set ''0123456789.-''))"
proof (intro conjI impI)
  assume "step_size_str symbol_filters symbol filter_type = None"
  then show "format_number symbol_filters symbol val filter_type = Inr (format_f val)"
    by (simp add: format_number_def)
next
  show "set (format_f val) \<subseteq> set ''0123456789.-''"
    by (rule format_f_chars)
next
  assume h: "step_size_str symbol_filters symbol filter_type = Some step_size
        \<and> \<not> d_sign val \<and> \<not> d_sign step_size
        \<and> 0 < d_int step_size \<and> d_int step_size < 10 ^ prec
        \<and> \<lfloor>dec_val val / dec_val step_size\<rfloor> * int (d_int (dec_normalize step_size))
            < 10 ^ prec"
  let ?st = "dec_normalize step_size"
  let ?k = "\<lfloor>\<bar>dec_val val\<bar> / dec_val step_size\<rfloor>"
  let ?d = "\<lparr> d_sign = d_sign val, d_int = nat ?k * d_int ?st, d_exp = d_exp ?st \<rparr>"
  from h have look: "step_size_str symbol_filters symbol filter_type = Some step_size"
    and vpos: "\<not> d_sign val" and spos: "\<not> d_sign step_size"
    and nz: "d_int step_size \<noteq> 0" and small: "d_int step_size < 10 ^ prec"
    and fits: "\<lfloor>dec_val val / dec_val step_size\<rfloor> * int (d_int ?st) < 10 ^ prec"
    by simp_all
  have abs: "\<bar>dec_val val\<bar> = dec_val val"
    using vpos by (simp add: dec_val_def)
  have stpos: "0 < dec_val step_size"
    using spos nz by (simp add: dec_val_def)
  note t = quantize_known_step [OF look spos nz small, of val, unfolded abs, OF fits]
  have v: "dec_val ?d = of_int \<lfloor>dec_val val / dec_val step_size\<rfloor> * dec_val step_size"
    unfolding abs using t(2) vpos by simp
  have le: "dec_val ?d \<le> dec_val val"
    unfolding v using stpos by (rule floor_multiple_le)
  have ch: "set (format_f ?d) \<subseteq> set ''0123456789.''"
    by (rule format_f_chars_nonneg) (simp add: vpos)
  from t(1) v le ch
  show "\<exists>d. format_number symbol_filters symbol val filter_type = Inr (format_f d)
              \<and> dec_val d = of_int \<lfloor>dec_val val / dec_val step_size\<rfloor> * dec_val step_size
              \<and> dec_val d \<le> dec_val val
              \<and> set (format_f d) \<subseteq> set ''0123456789.''"
    unfolding abs by blast
next
  assume h: "step_size_str symbol_filters symbol filter_type = Some step_size
        \<and> d_sign val \<and> \<not> d_sign step_size
        \<and> 0 < d_int step_size \<and> d_int step_size < 10 ^ prec
        \<and> \<lfloor>- dec_val val / dec_val step_size\<rfloor> * int (d_int (dec_normalize step_size))
            < 10 ^ prec"
  let ?st = "dec_normalize step_size"
  let ?k = "\<lfloor>- dec_val val / dec_val step_size\<rfloor>"
  let ?d = "\<lparr> d_sign = d_sign val, d_int = nat ?k * d_int ?st, d_exp = d_exp ?st \<rparr>"
  from h have look: "step_size_str symbol_filters symbol filter_type = Some step_size"
    and vneg: "d_sign val" and spos: "\<not> d_sign step_size"
    and nz: "d_int step_size \<noteq> 0" and small: "d_int step_size < 10 ^ prec"
    and fits: "?k * int (d_int ?st) < 10 ^ prec"
    by simp_all
  have abs: "\<bar>dec_val val\<bar> = - dec_val val"
    using vneg by (simp add: dec_val_def)
  have stpos: "0 < dec_val step_size"
    using spos nz by (simp add: dec_val_def)
  note t = quantize_known_step [OF look spos nz small, of val, unfolded abs, OF fits]
  have ceil: "\<lceil>dec_val val / dec_val step_size\<rceil> = - ?k"
    by (simp add: ceiling_def)
  have v0: "dec_val ?d = - (of_int ?k * dec_val step_size)"
    using t(2) vneg by simp
  then have v: "dec_val ?d = of_int \<lceil>dec_val val / dec_val step_size\<rceil> * dec_val step_size"
    by (simp add: ceil)
  have "of_int ?k * dec_val step_size \<le> - dec_val val"
    using stpos by (rule floor_multiple_le)
  then have ge: "dec_val val \<le> dec_val ?d"
    unfolding v0 by simp
  have "0 \<le> - dec_val val / dec_val step_size"
    using abs stpos by (metis abs_ge_zero divide_nonneg_pos less_imp_le)
  then have "0 \<le> ?k"
    by simp
  then have le0: "dec_val ?d \<le> 0"
    unfolding v0 using stpos by simp
  have ch: "set (format_f ?d) \<subseteq> set ''0123456789.-''"
    by (rule format_f_chars)
  have minus: "hd (format_f ?d) = CHR ''-''"
    using vneg by (simp add: format_f_def Let_def)
  from t(1) v ge le0 minus ch
  show "\<exists>d. format_number symbol_filters symbol val filter_type = Inr (format_f d)
              \<and> dec_val d = of_int \<lceil>dec_val val / dec_val step_size\<rceil> * dec_val step_size
              \<and> dec_val val \<le> dec_val d \<and> dec_val d \<le> 0
              \<and> hd (format_f d) = CHR ''-''
              \<and> set (format_f d) \<subseteq> set ''0123456789.-''"
    by blast
qed

text \<open>
  The example of the specification: the step 0.001 (sent as 0.00100000) and the input
  0.0012345 give the text 0.001; a symbol without filters gets the value as it is; the
  negative value -0.0025 is truncated to -0.002.
\<close>

theorem quantize_rounds_down_witness:
  "step_size_str sample_filters ''BTCUSDT'' ''LOT_SIZE''
     = Some \<lparr> d_sign = False, d_int = 100000, d_exp = - 8 \<rparr>
   \<and> dec_val \<lparr> d_sign = False, d_int = 12345, d_exp = - 7 \<rparr> = 12345 / 10000000
   \<and> dec_val \<lparr> d_sign = False, d_int = 100000, d_exp = - 8 \<rparr> = 1 / 1000
   \<and> format_number sample_filters ''BTCUSDT'' \<lparr> d_sign = False, d_int = 12345, d_exp = - 7 \<rparr>
        ''LOT_SIZE'' = Inr ''0.001''
   \<and> (\<exists>d. format_f d = ''0.001'' \<and> dec_val d = 1 / 1000)
   \<and> step_size_str sample_filters ''ETHUSDT'' ''LOT_SIZE'' = None
   \<and> format_number sample_filters ''ETHUSDT'' \<lparr> d_sign = False, d_int = 1, d_exp = - 5 \<rparr>
        ''LOT_SIZE'' = Inr ''0.00001''
   \<and> dec_val \<lparr> d_sign = True, d_int = 25, d_exp = - 4 \<rparr> = - (25 / 10000)
   \<and> format_number sample_filters ''BTCUSDT'' \<lparr> d_sign = True, d_int = 25, d_exp = - 4 \<rparr>
        ''LOT_SIZE'' = Inr ''-0.002''
   \<and> (\<exists>d. format_f d = ''-0.002'' \<and> dec_val d = - (2 / 1000))"
proof -
  let ?v = "\<lparr> d_sign = False, d_int = 12345, d_exp = - 7 \<rparr>"
  let ?s = "\<lparr> d_sign = False, d_int = 100000, d_exp = - 8 \<rparr>"
  let ?w = "\<lparr> d_sign = False, d_int = 1, d_exp = - 5 \<rparr>"
  let ?n = "\<lparr> d_sign = True, d_int = 25, d_exp = - 4 \<rparr>"
  have look: "step_size_str sample_filters ''BTCUSDT'' ''LOT_SIZE'' = Some ?s"
    by (simp add: step_size_str_def sample_filters_def)
  have v: "dec_val ?v = 12345 / 10000000" and s: "dec_val ?s = 1 / 1000"
    and nv: "dec_val ?n = - (25 / 10000)"
    by (simp_all add: dec_val_def)
  have k: "\<lfloor>dec_val ?v / dec_val ?s\<rfloor> = 1"
    unfolding v s by simp
  have norm: "dec_normalize ?s = \<lparr> d_sign = False, d_int = 1, d_exp = - 3 \<rparr>"
    by (simp add: dec_defs)
  have fits: "\<lfloor>dec_val ?v / dec_val ?s\<rfloor> * int (d_int (dec_normalize ?s)) < 10 ^ prec"
    unfolding k norm by (simp add: prec_def)
  have out: "format_number sample_filters ''BTCUSDT'' ?v ''LOT_SIZE'' = Inr ''0.001''"
    by (simp add: dec_defs)
  note t = quantize_rounds_down [where symbol_filters = sample_filters
      and symbol = "''BTCUSDT''" and filter_type = "''LOT_SIZE''" and val = ?v
      and step_size = ?s]
  have hyp: "step_size_str sample_filters ''BTCUSDT'' ''LOT_SIZE'' = Some ?s
        \<and> \<not> d_sign ?v \<and> \<not> d_sign ?s \<and> 0 < d_int ?s \<and> d_int ?s < 10 ^ prec
        \<and> \<lfloor>dec_val ?v / dec_val ?s\<rfloor> * int (d_int (dec_normalize ?s)) < 10 ^ prec"
    by (intro conjI look fits) (simp_all add: prec_def)
  from t [THEN conjunct2, THEN conjunct1, rule_format, OF hyp]
  obtain d where d: "format_number sample_filters ''BTCUSDT'' ?v ''LOT_SIZE'' = Inr (format_f d)"
      "dec_val d = of_int \<lfloor>dec_val ?v / dec_val ?s\<rfloor> * dec_val ?s"
    by blast
  from d(1) have "format_f d = ''0.001''"
    unfolding out by simp
  moreover from d(2) have "dec_val d = of_int 1 * dec_val ?s"
    by (simp only: k)
  then have "dec_val d = 1 / 1000"
    by (simp add: s)
  ultimately have ex: "\<exists>d. format_f d = ''0.001'' \<and> dec_val d = 1 / 1000"
    by blast
  have none: "step_size_str sample_filters ''ETHUSDT'' ''LOT_SIZE'' = None"
    by (simp add: step_size_str_def sample_filters_def)
  from quantize_rounds_down [where symbol_filters = sample_filters
      and symbol = "''ETHUSDT''" and filter_type = "''LOT_SIZE''" and val = ?w] none
  have "format_number sample_filters ''ETHUSDT'' ?w ''LOT_SIZE'' = Inr (format_f ?w)"
    by blast
  then have plain: "format_number sample_filters ''ETHUSDT'' ?w ''LOT_SIZE'' = Inr ''0.00001''"
    by (simp add: dec_defs)
  have q: "- (- (25 / 10000)) / (1 / 1000) = (5 / 2 :: real)"
    by simp
  have fl: "\<lfloor>5 / 2 :: real\<rfloor> = 2"
    by simp
  have kn: "\<lfloor>- dec_val ?n / dec_val ?s\<rfloor> = 2"
    unfolding nv s q by (rule fl)
  have cn: "\<lceil>dec_val ?n / dec_val ?s\<rceil> = - 2"
    using kn by (simp add: ceiling_def)
  have fitsn: "\<lfloor>- dec_val ?n / dec_val ?s\<rfloor> * int (d_int (dec_normalize ?s)) < 10 ^ prec"
    unfolding kn norm by (simp add: prec_def)
  have outn: "format_number sample_filters ''BTCUSDT'' ?n ''LOT_SIZE'' = Inr ''-0.002''"
    by (simp add: dec_defs)
  have hypn: "step_size_str sample_filters ''BTCUSDT'' ''LOT_SIZE'' = Some ?s
        \<and> d_sign ?n \<and> \<not> d_sign ?s \<and> 0 < d_int ?s \<and> d_int ?s < 10 ^ prec
        \<and> \<lfloor>- dec_val ?n / dec_val ?s\<rfloor> * int (d_int (dec_normalize ?s)) < 10 ^ prec"
    by (intro conjI look fitsn) (simp_all add: prec_def)
  from quantize_rounds_down [where symbol_filters = sample_filters
      and symbol = "''BTCUSDT''" and filter_type = "''LOT_SIZE''" and val = ?n
      and step_size = ?s, THEN conjunct2, THEN conjunct2, rule_format, OF hypn]
  obtain e where e: "format_number sample_filters ''BTCUSDT'' ?n ''LOT_SIZE'' = Inr (format_f e)"
      "dec_val e = of_int \<lceil>dec_val ?n / dec_val ?s\<rceil> * dec_val ?s"
    by blast
  from e(1) have "format_f e = ''-0.002''"
    unfolding outn by simp
  moreover from e(2) have "dec_val e = of_int (- 2) * dec_val ?s"
    by (simp only: cn)
  then have "dec_val e = - (2 / 1000)"
    by (simp add: s)
  ultimately have exn: "\<exists>d. format_f d = ''-0.002'' \<and> dec_val d = - (2 / 1000)"
    by blast
  show ?thesis
    by (intro conjI look v s out ex none plain nv outn exn)
qed

text \<open>
  Where the output is not floor(value / step) * step. The division of decimals truncates
  towards zero, so the negative value -0.0015 with the step 0.001 gives -0.001, which is
  above the value and is not floor(-1.5) * 0.001 = -0.002. A step of zero (a disabled price
  filter is sent as the tick size 0.00000000) raises, and so does a quotient of more than
  28 digits (the float 1e+30 with the step 0.001). A step written with 29 digits,
  0.12500000000000000000000000005, is rounded to 0.125 by the normalization: the value
  0.26 gives 0.250, which is not twice that step.
\<close>

theorem quantize_floor_counterexample:
  "format_number sample_filters ''BTCUSDT'' \<lparr> d_sign = True, d_int = 15, d_exp = - 4 \<rparr>
     ''LOT_SIZE'' = Inr ''-0.001''
   \<and> format_f \<lparr> d_sign = True, d_int = 1, d_exp = - 3 \<rparr> = ''-0.001''
   \<and> dec_val \<lparr> d_sign = True, d_int = 15, d_exp = - 4 \<rparr>
       < dec_val \<lparr> d_sign = True, d_int = 1, d_exp = - 3 \<rparr>
   \<and> of_int \<lfloor>dec_val \<lparr> d_sign = True, d_int = 15, d_exp = - 4 \<rparr>
                / dec_val \<lparr> d_sign = False, d_int = 100000, d_exp = - 8 \<rparr>\<rfloor>
       * dec_val \<lparr> d_sign = False, d_int = 100000, d_exp = - 8 \<rparr> = - (2 / 1000)
   \<and> format_number
        [''BTCUSDT'' \<mapsto> [''PRICE_FILTER'' \<mapsto>
           [''tickSize'' \<mapsto> \<lparr> d_sign = False, d_int = 0, d_exp = - 8 \<rparr>]]]
        ''BTCUSDT'' \<lparr> d_sign = False, d_int = 6543212, d_exp = - 2 \<rparr> ''PRICE_FILTER''
       = Inl DivisionByZero
   \<and> format_number sample_filters ''BTCUSDT'' \<lparr> d_sign = False, d_int = 1, d_exp = 30 \<rparr>
        ''LOT_SIZE'' = Inl InvalidOperation
   \<and> format_number
        [''BTCUSDT'' \<mapsto> [''LOT_SIZE'' \<mapsto>
           [''stepSize'' \<mapsto>
              \<lparr> d_sign = False, d_int = 12500000000000000000000000005, d_exp = - 29 \<rparr>]]]
        ''BTCUSDT'' \<lparr> d_sign = False, d_int = 26, d_exp = - 2 \<rparr> ''LOT_SIZE''
       = Inr ''0.250''
   \<and> format_f \<lparr> d_sign = False, d_int = 250, d_exp = - 3 \<rparr> = ''0.250''
   \<and> dec_val \<lparr> d_sign = False, d_int = 250, d_exp = - 3 \<rparr>
       < of_int \<lfloor>dec_val \<lparr> d_sign = False, d_int = 26, d_exp = - 2 \<rparr>
                  / dec_val \<lparr> d_sign = False, d_int = 12500000000000000000000000005,
                              d_exp = - 29 \<rparr>\<rfloor>
         * dec_val \<lparr> d_sign = False, d_int = 12500000000000000000000000005, d_exp = - 29 \<rparr>"
proof -
  have a: "format_number sample_filters ''BTCUSDT'' \<lparr> d_sign = True, d_int = 15, d_exp = - 4 \<rparr>
     ''LOT_SIZE'' = Inr ''-0.001''"
    by (simp add: dec_defs)
  have b: "format_f \<lparr> d_sign = True, d_int = 1, d_exp = - 3 \<rparr> = ''-0.001''"
    by (simp add: dec_defs)
  have c: "dec_val \<lparr> d_sign = True, d_int = 15, d_exp = - 4 \<rparr>
       < dec_val \<lparr> d_sign = True, d_int = 1, d_exp = - 3 \<rparr>"
    by (simp add: dec_val_def)
  have v1: "dec_val \<lparr> d_sign = True, d_int = 15, d_exp = - 4 \<rparr> = - (3 / 2000)"
    and v2: "dec_val \<lparr> d_sign = False, d_int = 100000, d_exp = - 8 \<rparr> = 1 / 1000"
    by (simp_all add: dec_val_def)
  have q: "(- (3 / 2000) :: real) / (1 / 1000) = - (3 / 2)"
    by simp
  have fl: "\<lfloor>- (3 / 2) :: real\<rfloor> = - 2"
    by (simp add: floor_eq_iff)
  have d: "of_int \<lfloor>dec_val \<lparr> d_sign = True, d_int = 15, d_exp = - 4 \<rparr>
                / dec_val \<lparr> d_sign = False, d_int = 100000, d_exp = - 8 \<rparr>\<rfloor>
       * dec_val \<lparr> d_sign = False, d_int = 100000, d_exp = - 8 \<rparr> = - (2 / 1000)"
    unfolding v1 v2 q fl by simp
  have e: "format_number
        [''BTCUSDT'' \<mapsto> [''PRICE_FILTER'' \<mapsto>
           [''tickSize'' \<mapsto> \<lparr> d_sign = False, d_int = 0, d_exp = - 8 \<rparr>]]]
        ''BTCUSDT'' \<lparr> d_sign = False, d_int = 6543212, d_exp = - 2 \<rparr> ''PRICE_FILTER''
       = Inl DivisionByZero"
    by (simp add: dec_defs)
  have f: "format_number sample_filters ''BTCUSDT'' \<lparr> d_sign = False, d_int = 1, d_exp = 30 \<rparr>
        ''LOT_SIZE'' = Inl InvalidOperation"
    by (simp add: dec_defs)
  have g: "format_number
        [''BTCUSDT'' \<mapsto> [''LOT_SIZE'' \<mapsto>
           [''stepSize'' \<mapsto>
              \<lparr> d_sign = False, d_int = 12500000000000000000000000005, d_exp = - 29 \<rparr>]]]
        ''BTCUSDT'' \<lparr> d_sign = False, d_int = 26, d_exp = - 2 \<rparr> ''LOT_SIZE''
       = Inr ''0.250''"
    by (simp add: dec_defs)
  have h: "format_f \<lparr> d_sign = False, d_int = 250, d_exp = - 3 \<rparr> = ''0.250''"
    by (simp add: dec_defs)
  have w1: "dec_val \<lparr> d_sign = False, d_int = 26, d_exp = - 2 \<rparr> = 26 / 100"
    and w2: "dec_val \<lparr> d_sign = False, d_int = 12500000000000000000000000005, d_exp = - 29 \<rparr>
             = 12500000000000000000000000005 / 100000000000000000000000000000"
    and w3: "dec_val \<lparr> d_sign = False, d_int = 250, d_exp = - 3 \<rparr> = 250 / 1000"
    by (simp_all add: dec_val_def)
  have fl2: "\<lfloor>(26 / 100 :: real)
               / (12500000000000000000000000005 / 100000000000000000000000000000)\<rfloor> = 2"
    by (simp add: floor_eq_iff)
  have i: "dec_val \<lparr> d_sign = False, d_int = 250, d_exp = - 3 \<rparr>
       < of_int \<lfloor>dec_val \<lparr> d_sign = False, d_int = 26, d_exp = - 2 \<rparr>
                  / dec_val \<lparr> d_sign = False, d_int = 12500000000000000000000000005,
                              d_exp = - 29 \<rparr>\<rfloor>
         * dec_val \<lparr> d_sign = False, d_int = 12500000000000000000000000005, d_exp = - 29 \<rparr>"
    unfolding w1 w2 w3 fl2 by simp
  show ?thesis
    by (intro conjI a b c d e f g h i)
qed

end
